theory Spec2Isabelle
  imports Main
begin

section \<open>The JIRA provider of hermes (provider/jira/jira.go)\<close>

text \<open>
  The provider turns a notification into a create-issue call against the JIRA client and
  offers a discovery operation over sites, issue types and projects. The embedding follows
  the Go source function by function.

  Conventions of the embedding.
  \<^item> A Go struct is a record; its fields are prefixed with the struct's name, since HOL
    field names are global (\<open>Payload_Summary\<close> is \<open>Payload.Summary\<close>).
  \<^item> A pointer that the code may find nil is an \<open>option\<close>; dereferencing \<open>None\<close>
    is the outcome \<open>Panics\<close>.
  \<^item> Go's two return values \<open>(result, error)\<close> are a pair of options, so that a call
    returning both, or neither, is expressible.
  \<^item> The client, \<open>json.Unmarshal\<close>, \<open>mapstructure.Decode\<close> and \<open>ksuid.New\<close> are
    not part of the file; they are parameters. The client's operations and the identifier
    generator act on an external world \<open>'w\<close>, threaded through every call.
  \<^item> Every client call is appended to a trace, with its request and its response.
\<close>

subsection \<open>Values of type \<open>interface{}\<close>\<close>

text \<open>
  The dynamically typed values that a decoded JSON document or a generic configuration
  holds. A Go map is an association list with distinct keys. Numbers are never inspected
  by the provider.
\<close>

datatype gvalue =
    GNil
  | GBool bool
  | GNumber int
  | GString string
  | GList "gvalue list"
  | GMap "(string \<times> gvalue) list"

type_synonym gmap = "(string \<times> gvalue) list"

subsection \<open>Errors\<close>

text \<open>
  \<open>domain.IError\<close>. The provider builds its own errors with the two helpers
  \<open>errFailedBodyValidation\<close> and \<open>errFailedOptsValidation\<close>, each applied to a message;
  they are the first two constructors. Every other error value (those the client builds)
  is \<open>clientError\<close>.
\<close>

datatype 'e IError =
    errFailedBodyValidation string
  | errFailedOptsValidation string
  | clientError 'e

text \<open>The errors that the provider's own validation helpers build.\<close>

fun isValidationError :: "'e IError \<Rightarrow> bool" where
  "isValidationError (errFailedBodyValidation m) = True"
| "isValidationError (errFailedOptsValidation m) = True"
| "isValidationError (clientError e) = False"

text \<open>The outcome of a Go call: it returns, or it panics on a nil dereference.\<close>

datatype 'a outcome = Returns 'a | Panics

subsection \<open>The structs\<close>

record Payload =
  Payload_Summary :: string
  Payload_Description :: "gmap option"

record NotifierSecret =
  Secret_Token :: string

record NotifierConfiguration =
  Config_Secret :: "NotifierSecret option"
  Config_Opts :: gmap

record Notifier =
  Notifier_Config :: "NotifierConfiguration option"

record Opts =
  Opts_Secret :: "NotifierSecret option"
  Opts_ProjectKey :: string
  Opts_IssueType :: string
  Opts_CloudID :: string

text \<open>
  \<open>Fields\<close> holds \<open>Project{Key}\<close> and \<open>IssueType{Name}\<close>, two structs of one field
  each, written here as the fields \<open>Fields_Project_Key\<close> and \<open>Fields_IssueType_Name\<close>.
\<close>

record Fields =
  Fields_Project_Key :: string
  Fields_IssueType_Name :: string
  Fields_Summary :: string
  Fields_Description :: "gmap option"

record CreateIssueRequest =
  CreateIssue_Fields :: Fields
  CreateIssue_CloudID :: string
  CreateIssue_BearerToken :: string

record AccessibleResourcesRequest =
  AccessibleResources_BearerToken :: string

record GetIssueTypesRequest =
  GetIssueTypes_BearerToken :: string
  GetIssueTypes_CloudID :: string

record GetProjectsRequest =
  GetProjects_BearerToken :: string
  GetProjects_CloudID :: string

text \<open>
  The elements of the client's responses. Their declarations are not in the file; the
  fields are those the provider reads (\<open>ID\<close>, \<open>Name\<close>, \<open>Key\<close>), and a project keeps
  its internal identifier next to its key, as the specification describes it.
\<close>

record Site =
  Site_ID :: string
  Site_Name :: string

record IssueTypeItem =
  IssueTypeItem_ID :: string
  IssueTypeItem_Name :: string

record ProjectItem =
  ProjectItem_ID :: string
  ProjectItem_Key :: string
  ProjectItem_Name :: string

record GetProjectsResponse =
  Projects_Values :: "ProjectItem list"

record 'r Message =
  Message_ID :: string
  Message_Ok :: bool
  Message_Payload :: Payload
  Message_ProviderResponse :: 'r

subsection \<open>The client, the libraries and the state\<close>

datatype ('e, 'r) event =
    EvCreateIssue CreateIssueRequest "'e IError + 'r"
  | EvGetAccessibleResources AccessibleResourcesRequest "'e IError + Site list"
  | EvGetIssueTypes GetIssueTypesRequest "'e IError + IssueTypeItem list"
  | EvGetProjects GetProjectsRequest "'e IError + GetProjectsResponse"

text \<open>
  The four operations of \<open>Client\<close>. Each returns a typed result or an error and may
  change the external world.
\<close>

record ('w, 'e, 'r) Client =
  CreateIssue :: "CreateIssueRequest \<Rightarrow> 'w \<Rightarrow> ('e IError + 'r) \<times> 'w"
  GetAccessibleResources :: "AccessibleResourcesRequest \<Rightarrow> 'w \<Rightarrow> ('e IError + Site list) \<times> 'w"
  GetIssueTypes :: "GetIssueTypesRequest \<Rightarrow> 'w \<Rightarrow> ('e IError + IssueTypeItem list) \<times> 'w"
  GetProjects :: "GetProjectsRequest \<Rightarrow> 'w \<Rightarrow> ('e IError + GetProjectsResponse) \<times> 'w"

text \<open>
  The library functions the provider calls. \<open>json_Unmarshal body p\<close> and
  \<open>mapstructure_Decode m opts\<close> return the error message, if any, and the struct they wrote
  into; \<open>ksuid_New\<close> draws an identifier from the world.
\<close>

record 'w libs =
  json_Unmarshal :: "string \<Rightarrow> Payload \<Rightarrow> string option \<times> Payload"
  mapstructure_Decode :: "gmap \<Rightarrow> Opts \<Rightarrow> string option \<times> Opts"
  ksuid_New :: "'w \<Rightarrow> string \<times> 'w"

text \<open>
  The state of a run: the external world, the client calls made so far, and the lines
  written by \<open>fmt.Println\<close> (the prefix and the error printed).
\<close>

record ('w, 'e, 'r) state =
  world :: 'w
  trace :: "('e, 'r) event list"
  stdout :: "(string \<times> 'e IError) list"

definition fmt_Println :: "string \<Rightarrow> 'e IError \<Rightarrow> ('w, 'e, 'r) state \<Rightarrow> ('w, 'e, 'r) state" where
  "fmt_Println prefix err st = st\<lparr>stdout := stdout st @ [(prefix, err)]\<rparr>"

definition call_CreateIssue ::
  "('w, 'e, 'r) Client \<Rightarrow> CreateIssueRequest \<Rightarrow> ('w, 'e, 'r) state
    \<Rightarrow> ('e IError + 'r) \<times> ('w, 'e, 'r) state" where
  "call_CreateIssue cl req st =
     (case CreateIssue cl req (world st) of
        (res, w) \<Rightarrow> (res, st\<lparr>world := w, trace := trace st @ [EvCreateIssue req res]\<rparr>))"

definition call_GetAccessibleResources ::
  "('w, 'e, 'r) Client \<Rightarrow> AccessibleResourcesRequest \<Rightarrow> ('w, 'e, 'r) state
    \<Rightarrow> ('e IError + Site list) \<times> ('w, 'e, 'r) state" where
  "call_GetAccessibleResources cl req st =
     (case GetAccessibleResources cl req (world st) of
        (res, w) \<Rightarrow> (res, st\<lparr>world := w, trace := trace st @ [EvGetAccessibleResources req res]\<rparr>))"

definition call_GetIssueTypes ::
  "('w, 'e, 'r) Client \<Rightarrow> GetIssueTypesRequest \<Rightarrow> ('w, 'e, 'r) state
    \<Rightarrow> ('e IError + IssueTypeItem list) \<times> ('w, 'e, 'r) state" where
  "call_GetIssueTypes cl req st =
     (case GetIssueTypes cl req (world st) of
        (res, w) \<Rightarrow> (res, st\<lparr>world := w, trace := trace st @ [EvGetIssueTypes req res]\<rparr>))"

definition call_GetProjects ::
  "('w, 'e, 'r) Client \<Rightarrow> GetProjectsRequest \<Rightarrow> ('w, 'e, 'r) state
    \<Rightarrow> ('e IError + GetProjectsResponse) \<times> ('w, 'e, 'r) state" where
  "call_GetProjects cl req st =
     (case GetProjects cl req (world st) of
        (res, w) \<Rightarrow> (res, st\<lparr>world := w, trace := trace st @ [EvGetProjects req res]\<rparr>))"

subsection \<open>Payload\<close>

text \<open>\<open>new(Payload)\<close> and \<open>new(Opts)\<close>: the zero values.\<close>

definition new_Payload :: Payload where
  "new_Payload = \<lparr>Payload_Summary = [], Payload_Description = None\<rparr>"

definition new_Opts :: Opts where
  "new_Opts = \<lparr>Opts_Secret = None, Opts_ProjectKey = [], Opts_IssueType = [], Opts_CloudID = []\<rparr>"

text \<open>
  \<open>Payload.Extract\<close>: the receiver is written by \<open>json.Unmarshal\<close>; the method returns
  the error (or nil) and leaves the receiver as the decoder left it.
\<close>

definition Payload_Extract ::
  "(string \<Rightarrow> Payload \<Rightarrow> string option \<times> Payload) \<Rightarrow> Payload \<Rightarrow> string
    \<Rightarrow> 'e IError option \<times> Payload" where
  "Payload_Extract unmarshal p body =
     (case unmarshal body p of
        (Some err, p') \<Rightarrow> (Some (errFailedBodyValidation err), p')
      | (None, p') \<Rightarrow> (None, p'))"

definition Payload_Validate :: "Payload \<Rightarrow> 'e IError option" where
  "Payload_Validate p =
     (if Payload_Summary p = [] then
        Some (errFailedBodyValidation
          ''generated payload does not contaion mandatory param summary'')
      else if Payload_Description p = None then
        Some (errFailedBodyValidation
          ''generated payload does not contain mandatory param description'')
      else None)"

subsection \<open>Opts\<close>

definition Opts_Extract ::
  "(gmap \<Rightarrow> Opts \<Rightarrow> string option \<times> Opts) \<Rightarrow> Opts \<Rightarrow> NotifierConfiguration option
    \<Rightarrow> 'e IError option \<times> Opts" where
  "Opts_Extract decode opts c =
     (case c of
        None \<Rightarrow> (Some (errFailedOptsValidation ''notifier config emtpy''), opts)
      | Some cfg \<Rightarrow>
         (case decode (Config_Opts cfg) opts of
            (Some err, o') \<Rightarrow> (Some (errFailedOptsValidation ''failed to decode configuration''), o')
          | (None, o') \<Rightarrow> (None, o'\<lparr>Opts_Secret := Config_Secret cfg\<rparr>)))"

definition Opts_Validate :: "Opts option \<Rightarrow> 'e IError option" where
  "Opts_Validate recv =
     (case recv of
        None \<Rightarrow> Some (errFailedOptsValidation ''options empty'')
      | Some opts \<Rightarrow>
         (if Opts_IssueType opts = [] \<or> Opts_ProjectKey opts = [] then
            Some (errFailedOptsValidation ''issue_type or project_key is emtpy'')
          else if (case Opts_Secret opts of None \<Rightarrow> True | Some s \<Rightarrow> Secret_Token s = []) then
            Some (errFailedOptsValidation ''secret not defined in configuration'')
          else None))"

subsection \<open>Send\<close>

definition build_request :: "Opts \<Rightarrow> Payload \<Rightarrow> string \<Rightarrow> CreateIssueRequest" where
  "build_request opts payload token =
     \<lparr>CreateIssue_Fields =
        \<lparr>Fields_Project_Key = Opts_ProjectKey opts,
         Fields_IssueType_Name = Opts_IssueType opts,
         Fields_Summary = Payload_Summary payload,
         Fields_Description = Payload_Description payload\<rparr>,
      CreateIssue_CloudID = Opts_CloudID opts,
      CreateIssue_BearerToken = token\<rparr>"

text \<open>
  \<open>jiraSimple.Send\<close>. The notifier is a pointer that the code dereferences without a
  check, after the payload has been validated; \<open>opts.Secret.Token\<close> is read after
  \<open>Validate\<close> has found the secret.
\<close>

definition Send ::
  "('w, 'e, 'r) Client \<Rightarrow> 'w libs \<Rightarrow> Notifier option \<Rightarrow> string \<Rightarrow> ('w, 'e, 'r) state
    \<Rightarrow> ('r Message option \<times> 'e IError option) outcome \<times> ('w, 'e, 'r) state" where
  "Send cl lb notifier body st =
     (case Payload_Extract (json_Unmarshal lb) new_Payload body of
        (Some err, payload) \<Rightarrow> (Returns (None, Some err), st)
      | (None, payload) \<Rightarrow>
     (case Payload_Validate payload of
        Some err \<Rightarrow> (Returns (None, Some err), st)
      | None \<Rightarrow>
     (case notifier of
        None \<Rightarrow> (Panics, st)
      | Some n \<Rightarrow>
     (case Opts_Extract (mapstructure_Decode lb) new_Opts (Notifier_Config n) of
        (Some err, opts) \<Rightarrow> (Returns (None, Some err), st)
      | (None, opts) \<Rightarrow>
     (case Opts_Validate (Some opts) of
        Some err \<Rightarrow> (Returns (None, Some err), st)
      | None \<Rightarrow>
     (case Opts_Secret opts of
        None \<Rightarrow> (Panics, st)
      | Some secret \<Rightarrow>
     (case call_CreateIssue cl (build_request opts payload (Secret_Token secret)) st of
        (Inl err, st1) \<Rightarrow> (Returns (None, Some err), st1)
      | (Inr response, st1) \<Rightarrow>
         (case ksuid_New lb (world st1) of
            (ident, w) \<Rightarrow>
              (Returns
                 (Some \<lparr>Message_ID = ident, Message_Ok = True,
                        Message_Payload = payload, Message_ProviderResponse = response\<rparr>,
                  None),
               st1\<lparr>world := w\<rparr>)))))))))"

subsection \<open>GetOptValues\<close>

text \<open>
  \<open>map[string]string\<close> is a map from strings to strings. The result of the discovery is
  a \<open>map[string]interface{}\<close>; the values it holds are the list of sites
  (\<open>[]map[string]string\<close>), the per-site option values
  (\<open>map[string]map[string][]map[string]string\<close>) and a nested \<open>map[string]interface{}\<close>.
\<close>

type_synonym strmap = "string \<rightharpoonup> string"

datatype ival =
    VSites "strmap list"
  | VSiteOptValues "string \<rightharpoonup> (string \<rightharpoonup> strmap list)"
  | VMap "string \<rightharpoonup> ival"

text \<open>The two inner loops, each appending one \<open>{id, name}\<close> map per element.\<close>

fun issueTypes_loop :: "IssueTypeItem list \<Rightarrow> strmap list \<Rightarrow> strmap list" where
  "issueTypes_loop [] issueTypes = issueTypes"
| "issueTypes_loop (it # rest) issueTypes =
     issueTypes_loop rest
       (issueTypes @ [[''id'' \<mapsto> IssueTypeItem_ID it, ''name'' \<mapsto> IssueTypeItem_Name it]])"

fun projectKeys_loop :: "ProjectItem list \<Rightarrow> strmap list \<Rightarrow> strmap list" where
  "projectKeys_loop [] projectKeys = projectKeys"
| "projectKeys_loop (p # rest) projectKeys =
     projectKeys_loop rest
       (projectKeys @ [[''id'' \<mapsto> ProjectItem_Key p, ''name'' \<mapsto> ProjectItem_Name p]])"

text \<open>
  The loop over the accessible sites, with the two accumulators \<open>sites\<close> and
  \<open>siteOptValues\<close>. A failing lookup prints the error and leaves the loop with it.
\<close>

fun sites_loop ::
  "('w, 'e, 'r) Client \<Rightarrow> string \<Rightarrow> Site list \<Rightarrow> strmap list
    \<Rightarrow> (string \<rightharpoonup> (string \<rightharpoonup> strmap list)) \<Rightarrow> ('w, 'e, 'r) state
    \<Rightarrow> ('e IError + strmap list \<times> (string \<rightharpoonup> (string \<rightharpoonup> strmap list))) \<times> ('w, 'e, 'r) state" where
  "sites_loop cl token [] sites siteOptValues st = (Inr (sites, siteOptValues), st)"
| "sites_loop cl token (site # rest) sites siteOptValues st =
     (case call_GetIssueTypes cl
             \<lparr>GetIssueTypes_BearerToken = token, GetIssueTypes_CloudID = Site_ID site\<rparr> st of
        (Inl err, st1) \<Rightarrow> (Inl err, fmt_Println ''foobar1: '' err st1)
      | (Inr issueTypesResponse, st1) \<Rightarrow>
     (case call_GetProjects cl
             \<lparr>GetProjects_BearerToken = token, GetProjects_CloudID = Site_ID site\<rparr> st1 of
        (Inl err, st2) \<Rightarrow> (Inl err, fmt_Println ''foobar2: '' err st2)
      | (Inr projects, st2) \<Rightarrow>
          sites_loop cl token rest
            (sites @ [[''id'' \<mapsto> Site_ID site, ''name'' \<mapsto> Site_Name site]])
            (siteOptValues(Site_ID site \<mapsto>
               [''project_key'' \<mapsto> projectKeys_loop (Projects_Values projects) [],
                ''issue_type'' \<mapsto> issueTypes_loop issueTypesResponse []]))
            st2))"

text \<open>
  \<open>jiraSimple.GetOptValues\<close>. The secret is a pointer that the code dereferences
  without a check.
\<close>

definition GetOptValues ::
  "('w, 'e, 'r) Client \<Rightarrow> NotifierSecret option \<Rightarrow> ('w, 'e, 'r) state
    \<Rightarrow> ((string \<rightharpoonup> ival) option \<times> 'e IError option) outcome \<times> ('w, 'e, 'r) state" where
  "GetOptValues cl opts st =
     (case opts of
        None \<Rightarrow> (Panics, st)
      | Some secret \<Rightarrow>
     (case call_GetAccessibleResources cl
             \<lparr>AccessibleResources_BearerToken = Secret_Token secret\<rparr> st of
        (Inl err, st1) \<Rightarrow> (Returns (None, Some err), fmt_Println ''foobar0: '' err st1)
      | (Inr accessibleResourcesResponse, st1) \<Rightarrow>
     (case sites_loop cl (Secret_Token secret) accessibleResourcesResponse [] Map.empty st1 of
        (Inl err, st2) \<Rightarrow> (Returns (None, Some err), st2)
      | (Inr (sites, siteOptValues), st2) \<Rightarrow>
          (Returns
             (Some [''cloud_id'' \<mapsto> VSites sites,
                    ''_rel'' \<mapsto> VMap [''cloud_id'' \<mapsto> VSiteOptValues siteOptValues]],
              None),
           st2))))"

subsection \<open>The decoder of the generic configuration\<close>

text \<open>
  Modelled from the spec: \<open>mapstructure.Decode\<close> is a library function, whose source is
  not part of the repository. The specification says of it that the option fields of the
  generic configuration are mapped onto the typed option fields and that the mapping fails
  on a type or shape mismatch of a field. The model below follows that, with the library's
  documented rules for a struct target: a field is looked up under its tag name (its own
  name when it has no tag, as \<open>Secret\<close>), first exactly and then through
  \<open>strings.EqualFold\<close> over the keys in iteration order; a field with no key, or with
  a nil value, is left as it is; keys that match no field are ignored; a string field
  accepts a string and nothing else. \<open>strings.EqualFold\<close> and the test whether a value
  decodes into a \<open>NotifierSecret\<close> are parameters. The decoded secret itself is not
  kept: \<open>Extract\<close> overwrites it on success, and \<open>Send\<close> drops the whole struct on
  failure.
\<close>

definition find_key :: "(string \<Rightarrow> string \<Rightarrow> bool) \<Rightarrow> gmap \<Rightarrow> string \<Rightarrow> gvalue option" where
  "find_key equalFold m name =
     (case map_of m name of
        Some v \<Rightarrow> Some v
      | None \<Rightarrow>
         (case find (\<lambda>kv. equalFold (fst kv) name) m of
            Some kv \<Rightarrow> Some (snd kv)
          | None \<Rightarrow> None))"

text \<open>
  Decoding into a string field holding \<open>cur\<close>: whether it failed, and the field
  afterwards.
\<close>

fun decode_string :: "gvalue option \<Rightarrow> string \<Rightarrow> bool \<times> string" where
  "decode_string None cur = (False, cur)"
| "decode_string (Some GNil) cur = (False, cur)"
| "decode_string (Some (GString s)) cur = (False, s)"
| "decode_string (Some v) cur = (True, cur)"

text \<open>Decoding into the \<open>Secret\<close> field: whether it failed.\<close>

fun decode_secret :: "(gvalue \<Rightarrow> bool) \<Rightarrow> gvalue option \<Rightarrow> bool" where
  "decode_secret secretOk None = False"
| "decode_secret secretOk (Some GNil) = False"
| "decode_secret secretOk (Some v) = (\<not> secretOk v)"

definition mapstructure_Decode_Opts ::
  "(string \<Rightarrow> string \<Rightarrow> bool) \<Rightarrow> (gvalue \<Rightarrow> bool) \<Rightarrow> gmap \<Rightarrow> Opts \<Rightarrow> string option \<times> Opts" where
  "mapstructure_Decode_Opts equalFold secretOk m opts =
     (case decode_string (find_key equalFold m ''project_key'') (Opts_ProjectKey opts) of
        (e1, projectKey) \<Rightarrow>
     (case decode_string (find_key equalFold m ''issue_type'') (Opts_IssueType opts) of
        (e2, issueType) \<Rightarrow>
     (case decode_string (find_key equalFold m ''cloud_id'') (Opts_CloudID opts) of
        (e3, cloudID) \<Rightarrow>
       (if decode_secret secretOk (find_key equalFold m ''Secret'') \<or> e1 \<or> e2 \<or> e3
        then Some ''error(s) decoding'' else None,
        opts\<lparr>Opts_ProjectKey := projectKey, Opts_IssueType := issueType,
             Opts_CloudID := cloudID\<rparr>))))"



subsection \<open>A concrete environment\<close>

text \<open>
  An instance of the parameters, on which the theorems below are run. The stand-in for
  \<open>json.Unmarshal\<close> knows the two documents of the specification's scenarios and rejects
  every other input. The client creates issues for one token only, reports the given sites
  and fails the project lookup of the site \<open>bad\<close>. The world counts the issues created
  and the identifiers drawn.
\<close>

definition demo_Unmarshal :: "string \<Rightarrow> Payload \<Rightarrow> string option \<times> Payload" where
  \<open>demo_Unmarshal body p =
     (if body = ''{"summary":"Bug","description":{"type":"doc"}}'' then
        (None, p\<lparr>Payload_Summary := ''Bug'',
                  Payload_Description := Some [(''type'', GString ''doc'')]\<rparr>)
      else if body = ''{"description":{"type":"doc"}}'' then
        (None, p\<lparr>Payload_Description := Some [(''type'', GString ''doc'')]\<rparr>)
      else (Some ''unexpected end of JSON input'', p))\<close>

definition demo_secretOk :: "gvalue \<Rightarrow> bool" where
  "demo_secretOk v = (case v of GMap m \<Rightarrow> True | _ \<Rightarrow> False)"

definition demo_libs :: "nat libs" where
  "demo_libs =
     \<lparr>json_Unmarshal = demo_Unmarshal,
      mapstructure_Decode = mapstructure_Decode_Opts (=) demo_secretOk,
      ksuid_New = (\<lambda>w. (''id-'' @ replicate w (CHR ''x''), Suc w))\<rparr>"

definition demo_Client :: "Site list \<Rightarrow> string \<Rightarrow> (nat, string, string) Client" where
  "demo_Client sites bad =
     \<lparr>CreateIssue = (\<lambda>req w.
        if CreateIssue_BearerToken req = ''token'' then (Inr ''created'', Suc w)
        else (Inl (clientError ''unauthorized''), w)),
      GetAccessibleResources = (\<lambda>req w. (Inr sites, w)),
      GetIssueTypes = (\<lambda>req w.
        (Inr [\<lparr>IssueTypeItem_ID = ''10001'', IssueTypeItem_Name = ''Bug''\<rparr>], w)),
      GetProjects = (\<lambda>req w.
        if GetProjects_CloudID req = bad then (Inl (clientError ''unavailable''), w)
        else (Inr \<lparr>Projects_Values =
                [\<lparr>ProjectItem_ID = ''10000'', ProjectItem_Key = ''OPS'',
                  ProjectItem_Name = ''Operations''\<rparr>]\<rparr>, w))\<rparr>"

definition demo_state :: "(nat, string, string) state" where
  "demo_state = \<lparr>world = 0, trace = [], stdout = []\<rparr>"

definition demo_Notifier :: "gmap \<Rightarrow> string \<Rightarrow> Notifier" where
  "demo_Notifier opts token =
     \<lparr>Notifier_Config =
        Some \<lparr>Config_Secret = Some \<lparr>Secret_Token = token\<rparr>, Config_Opts = opts\<rparr>\<rparr>"

definition demo_opts :: gmap where
  "demo_opts =
     [(''project_key'', GString ''OPS''), (''issue_type'', GString ''Bug''),
      (''cloud_id'', GString ''site1'')]"

definition demo_sites :: "Site list" where
  "demo_sites =
     [\<lparr>Site_ID = ''site1'', Site_Name = ''First''\<rparr>,
      \<lparr>Site_ID = ''site2'', Site_Name = ''Second''\<rparr>]"

text \<open>
  The identifiers that the concrete generator has drawn in a world, and a second client:
  it reports two sites of one id, and its answer about the issue types changes after its
  first answer.
\<close>

definition demo_issued :: "nat \<Rightarrow> string set" where
  "demo_issued w = (\<lambda>k. ''id-'' @ replicate k (CHR ''x'')) ` {..<w}"

definition demo_twin_sites :: "Site list" where
  "demo_twin_sites =
     [\<lparr>Site_ID = ''site1'', Site_Name = ''First''\<rparr>,
      \<lparr>Site_ID = ''site1'', Site_Name = ''Twin''\<rparr>]"

definition demo_changing_Client :: "(nat, string, string) Client" where
  "demo_changing_Client =
     \<lparr>CreateIssue = (\<lambda>req w. (Inl (clientError ''unauthorized''), w)),
      GetAccessibleResources = (\<lambda>req w. (Inr demo_twin_sites, w)),
      GetIssueTypes = (\<lambda>req w.
        (Inr [if w = 0 then \<lparr>IssueTypeItem_ID = ''10001'', IssueTypeItem_Name = ''Bug''\<rparr>
              else \<lparr>IssueTypeItem_ID = ''10002'', IssueTypeItem_Name = ''Task''\<rparr>], Suc w)),
      GetProjects = (\<lambda>req w.
        (Inr \<lparr>Projects_Values =
                [\<lparr>ProjectItem_ID = ''10000'', ProjectItem_Key = ''OPS'',
                  ProjectItem_Name = ''Operations''\<rparr>]\<rparr>, w))\<rparr>"

subsection \<open>Notions used in the statements\<close>

text \<open>
  The entry appended to \<open>sites\<close> for a site, and the value stored under a site's id,
  written with \<open>map\<close> in place of the append loops.
\<close>

definition site_entry :: "Site \<Rightarrow> strmap" where
  "site_entry s = [''id'' \<mapsto> Site_ID s, ''name'' \<mapsto> Site_Name s]"

definition site_values ::
  "IssueTypeItem list \<Rightarrow> GetProjectsResponse \<Rightarrow> (string \<rightharpoonup> strmap list)" where
  "site_values its prj =
     [''project_key'' \<mapsto>
        map (\<lambda>p. [''id'' \<mapsto> ProjectItem_Key p, ''name'' \<mapsto> ProjectItem_Name p])
          (Projects_Values prj),
      ''issue_type'' \<mapsto>
        map (\<lambda>it. [''id'' \<mapsto> IssueTypeItem_ID it, ''name'' \<mapsto> IssueTypeItem_Name it]) its]"

text \<open>
  A site together with the two responses received for it: the assignment
  \<open>siteOptValues[site.ID] = ...\<close> that the loop makes for it, and the two events its
  lookups leave in the trace, the issue types first.
\<close>

fun record_site ::
  "(string \<rightharpoonup> (string \<rightharpoonup> strmap list)) \<Rightarrow> Site \<times> IssueTypeItem list \<times> GetProjectsResponse
    \<Rightarrow> (string \<rightharpoonup> (string \<rightharpoonup> strmap list))" where
  "record_site m (site, its, prj) = m(Site_ID site \<mapsto> site_values its prj)"

fun site_events ::
  "string \<Rightarrow> Site \<times> IssueTypeItem list \<times> GetProjectsResponse \<Rightarrow> ('e, 'r) event list" where
  "site_events token (site, its, prj) =
     [EvGetIssueTypes
        \<lparr>GetIssueTypes_BearerToken = token, GetIssueTypes_CloudID = Site_ID site\<rparr> (Inr its),
      EvGetProjects
        \<lparr>GetProjects_BearerToken = token, GetProjects_CloudID = Site_ID site\<rparr> (Inr prj)]"

text \<open>The error of an event that is a failed per-site lookup.\<close>

fun lookup_failure :: "('e, 'r) event \<Rightarrow> 'e IError option" where
  "lookup_failure (EvGetIssueTypes req (Inl err)) = Some err"
| "lookup_failure (EvGetProjects req (Inl err)) = Some err"
| "lookup_failure ev = None"

text \<open>
  What the client answers when it is asked, site by site in the order of the list, for the
  issue types and then for the projects of the site: the sites with their two responses when
  every lookup succeeds, \<open>None\<close> as soon as one fails; and the world it leaves.
\<close>

fun client_lookups ::
  "('w, 'e, 'r) Client \<Rightarrow> string \<Rightarrow> Site list \<Rightarrow> 'w
    \<Rightarrow> (Site \<times> IssueTypeItem list \<times> GetProjectsResponse) list option \<times> 'w" where
  "client_lookups cl token [] w = (Some [], w)"
| "client_lookups cl token (site # rest) w =
     (case GetIssueTypes cl
             \<lparr>GetIssueTypes_BearerToken = token, GetIssueTypes_CloudID = Site_ID site\<rparr> w of
        (Inl err, w1) \<Rightarrow> (None, w1)
      | (Inr its, w1) \<Rightarrow>
     (case GetProjects cl
             \<lparr>GetProjects_BearerToken = token, GetProjects_CloudID = Site_ID site\<rparr> w1 of
        (Inl err, w2) \<Rightarrow> (None, w2)
      | (Inr prj, w2) \<Rightarrow>
     (case client_lookups cl token rest w2 of
        (None, w3) \<Rightarrow> (None, w3)
      | (Some rs, w3) \<Rightarrow> (Some ((site, its, prj) # rs), w3))))"

subsection \<open>The discovery on the concrete client\<close>

text \<open>The responses that the concrete client gives for its two sites.\<close>

definition demo_responses :: "(Site \<times> IssueTypeItem list \<times> GetProjectsResponse) list" where
  "demo_responses =
     [(\<lparr>Site_ID = ''site1'', Site_Name = ''First''\<rparr>,
       [\<lparr>IssueTypeItem_ID = ''10001'', IssueTypeItem_Name = ''Bug''\<rparr>],
       \<lparr>Projects_Values = [\<lparr>ProjectItem_ID = ''10000'', ProjectItem_Key = ''OPS'',
          ProjectItem_Name = ''Operations''\<rparr>]\<rparr>),
      (\<lparr>Site_ID = ''site2'', Site_Name = ''Second''\<rparr>,
       [\<lparr>IssueTypeItem_ID = ''10001'', IssueTypeItem_Name = ''Bug''\<rparr>],
       \<lparr>Projects_Values = [\<lparr>ProjectItem_ID = ''10000'', ProjectItem_Key = ''OPS'',
          ProjectItem_Name = ''Operations''\<rparr>]\<rparr>)]"

section \<open>Properties of Send\<close>

lemmas Send_defs = Send_def Payload_Extract_def Payload_Validate_def Opts_Extract_def
  Opts_Validate_def call_CreateIssue_def

lemmas demo_defs = demo_libs_def demo_Unmarshal_def demo_Notifier_def demo_opts_def
  demo_Client_def demo_state_def demo_sites_def demo_secretOk_def new_Payload_def new_Opts_def
  build_request_def mapstructure_Decode_Opts_def find_key_def

text \<open>
  Every way in which \<open>Send\<close> ends: a local failure with the state untouched, the panic
  on a nil notifier, a failed create-issue call, or a created issue.
\<close>

lemma Send_cases:
  assumes "Send cl lb notifier body st = (out, st')"
  shows "(\<exists>err. out = Returns (None, Some err) \<and> st' = st \<and> isValidationError err)
    \<or> (out = Panics \<and> st' = st \<and> notifier = None)
    \<or> (\<exists>req err w. CreateIssue cl req (world st) = (Inl err, w)
          \<and> out = Returns (None, Some err)
          \<and> world st' = w \<and> trace st' = trace st @ [EvCreateIssue req (Inl err)]
          \<and> stdout st' = stdout st)
    \<or> (\<exists>req response w payload. CreateIssue cl req (world st) = (Inr response, w)
          \<and> json_Unmarshal lb body new_Payload = (None, payload)
          \<and> Payload_Summary payload \<noteq> [] \<and> Payload_Description payload \<noteq> None
          \<and> out = Returns
               (Some \<lparr>Message_ID = fst (ksuid_New lb w), Message_Ok = True,
                      Message_Payload = payload, Message_ProviderResponse = response\<rparr>,
                None)
          \<and> world st' = snd (ksuid_New lb w)
          \<and> trace st' = trace st @ [EvCreateIssue req (Inr response)]
          \<and> stdout st' = stdout st)"
  using assms
  by (auto simp: Send_defs split: prod.splits sum.splits option.splits if_splits)

lemma Send_Some_returns:
  "\<exists>m e st'. Send cl lb (Some n) body st = (Returns (m, e), st')"
  by (auto simp: Send_defs split: prod.splits sum.splits option.splits if_splits)

text \<open>
  The notifier pointer itself is dereferenced without a check: with a valid payload and a
  nil notifier the call panics.
\<close>

lemma Send_nil_notifier:
  assumes "json_Unmarshal lb body new_Payload = (None, payload)"
    and "Payload_Summary payload \<noteq> []" and "Payload_Description payload \<noteq> None"
  shows "Send cl lb None body st = (Panics, st)"
  using assms by (auto simp: Send_defs)

text \<open>
  \<open>Send\<close> on an input that passes every local check, and its two outcomes spelt out.
\<close>

lemma build_request_Secret:
  "build_request (opts\<lparr>Opts_Secret := s\<rparr>) payload token = build_request opts payload token"
  by (simp add: build_request_def)

lemma state_eqI:
  assumes "world a = world b" and "trace a = trace b" and "stdout a = stdout b"
  shows "a = (b :: ('w, 'e, 'r) state)"
  using assms by (cases a, cases b) simp

lemma Send_valid_eq:
  assumes "json_Unmarshal lb body new_Payload = (None, payload)"
    and "Payload_Summary payload \<noteq> []"
    and "Payload_Description payload \<noteq> None"
    and "Notifier_Config n = Some cfg"
    and "mapstructure_Decode lb (Config_Opts cfg) new_Opts = (None, opts)"
    and "Opts_ProjectKey opts \<noteq> []"
    and "Opts_IssueType opts \<noteq> []"
    and "Config_Secret cfg = Some secret"
    and "Secret_Token secret \<noteq> []"
  shows "Send cl lb (Some n) body st =
     (case call_CreateIssue cl (build_request opts payload (Secret_Token secret)) st of
        (Inl err, st1) \<Rightarrow> (Returns (None, Some err), st1)
      | (Inr response, st1) \<Rightarrow>
          (Returns
             (Some \<lparr>Message_ID = fst (ksuid_New lb (world st1)), Message_Ok = True,
                    Message_Payload = payload, Message_ProviderResponse = response\<rparr>,
              None),
           st1\<lparr>world := snd (ksuid_New lb (world st1))\<rparr>))"
  using assms
  by (auto simp: Send_def Payload_Extract_def Payload_Validate_def Opts_Extract_def
      Opts_Validate_def build_request_Secret split: prod.splits sum.splits)

lemma Send_nil_error:
  assumes "Send cl lb notifier body st = (Returns (m, None), st')"
  shows "\<exists>payload n cfg opts secret response w.
      json_Unmarshal lb body new_Payload = (None, payload)
    \<and> Payload_Summary payload \<noteq> [] \<and> Payload_Description payload \<noteq> None
    \<and> notifier = Some n \<and> Notifier_Config n = Some cfg
    \<and> mapstructure_Decode lb (Config_Opts cfg) new_Opts = (None, opts)
    \<and> Opts_ProjectKey opts \<noteq> [] \<and> Opts_IssueType opts \<noteq> []
    \<and> Config_Secret cfg = Some secret \<and> Secret_Token secret \<noteq> []
    \<and> CreateIssue cl (build_request opts payload (Secret_Token secret)) (world st)
        = (Inr response, w)
    \<and> m = Some \<lparr>Message_ID = fst (ksuid_New lb w), Message_Ok = True,
            Message_Payload = payload, Message_ProviderResponse = response\<rparr>
    \<and> world st' = snd (ksuid_New lb w)
    \<and> trace st' = trace st @
          [EvCreateIssue (build_request opts payload (Secret_Token secret)) (Inr response)]
    \<and> stdout st' = stdout st"
  using assms
  by (auto simp: Send_defs build_request_Secret
      split: prod.splits sum.splits option.splits if_splits)


lemma Send_created:
  assumes "json_Unmarshal lb body new_Payload = (None, payload)"
    and "Payload_Summary payload \<noteq> []"
    and "Payload_Description payload \<noteq> None"
    and "Notifier_Config n = Some cfg"
    and "mapstructure_Decode lb (Config_Opts cfg) new_Opts = (None, opts)"
    and "Opts_ProjectKey opts \<noteq> []"
    and "Opts_IssueType opts \<noteq> []"
    and "Config_Secret cfg = Some secret"
    and "Secret_Token secret \<noteq> []"
    and "CreateIssue cl (build_request opts payload (Secret_Token secret)) (world st)
        = (Inr response, w)"
    and "world st' = snd (ksuid_New lb w)"
    and "trace st' = trace st @
          [EvCreateIssue (build_request opts payload (Secret_Token secret)) (Inr response)]"
    and "stdout st' = stdout st"
  shows "Send cl lb (Some n) body st =
     (Returns
        (Some \<lparr>Message_ID = fst (ksuid_New lb w), Message_Ok = True,
               Message_Payload = payload, Message_ProviderResponse = response\<rparr>,
         None),
      st')"
proof -
  have "st\<lparr>world := w,
          trace := trace st @
            [EvCreateIssue (build_request opts payload (Secret_Token secret)) (Inr response)]\<rparr>
        \<lparr>world := snd (ksuid_New lb w)\<rparr> = st'"
    by (rule state_eqI) (simp_all add: assms(11-13))
  with Send_valid_eq [OF assms(1-9), of cl st] assms(10) show ?thesis
    by (simp add: call_CreateIssue_def)
qed

lemma Send_failed:
  assumes "json_Unmarshal lb body new_Payload = (None, payload)"
    and "Payload_Summary payload \<noteq> []"
    and "Payload_Description payload \<noteq> None"
    and "Notifier_Config n = Some cfg"
    and "mapstructure_Decode lb (Config_Opts cfg) new_Opts = (None, opts)"
    and "Opts_ProjectKey opts \<noteq> []"
    and "Opts_IssueType opts \<noteq> []"
    and "Config_Secret cfg = Some secret"
    and "Secret_Token secret \<noteq> []"
    and "CreateIssue cl (build_request opts payload (Secret_Token secret)) (world st)
        = (Inl err, w)"
    and "Send cl lb (Some n) body st = (Returns (m, e), st')"
  shows "m = None \<and> e = Some err \<and> world st' = w
    \<and> trace st' = trace st @
          [EvCreateIssue (build_request opts payload (Secret_Token secret)) (Inl err)]
    \<and> stdout st' = stdout st"
  using Send_valid_eq [OF assms(1-9), of cl st] assms(10,11)
  by (auto simp: call_CreateIssue_def)

text \<open>
  C1. A payload with a non-empty summary and a non-nil description, and a configuration
  that \<open>mapstructure.Decode\<close> decodes without error into options with a non-empty
  project key and issue type and whose secret has a non-empty token, pass both validation
  steps: \<open>Send\<close> makes the create-issue call with the request built from them, exactly
  once, and its result is the client's: the client's error as it is, or a message.
\<close>

theorem Send_valid_reaches_CreateIssue:
  assumes "json_Unmarshal lb body new_Payload = (None, payload)"
    and "Payload_Summary payload \<noteq> []"
    and "Payload_Description payload \<noteq> None"
    and "Notifier_Config n = Some cfg"
    and "mapstructure_Decode lb (Config_Opts cfg) new_Opts = (None, opts)"
    and "Opts_ProjectKey opts \<noteq> []"
    and "Opts_IssueType opts \<noteq> []"
    and "Config_Secret cfg = Some secret"
    and "Secret_Token secret \<noteq> []"
    and "req = build_request opts payload (Secret_Token secret)"
  shows "Send cl lb (Some n) body st =
     (case CreateIssue cl req (world st) of
        (Inl err, w) \<Rightarrow>
          (Returns (None, Some err),
           st\<lparr>world := w, trace := trace st @ [EvCreateIssue req (Inl err)]\<rparr>)
      | (Inr response, w) \<Rightarrow>
          (Returns
             (Some \<lparr>Message_ID = fst (ksuid_New lb w), Message_Ok = True,
                    Message_Payload = payload, Message_ProviderResponse = response\<rparr>,
              None),
           st\<lparr>world := snd (ksuid_New lb w),
              trace := trace st @ [EvCreateIssue req (Inr response)]\<rparr>))"
  using assms
  by (auto simp: Send_defs build_request_def split: prod.splits sum.splits)

theorem Send_valid_reaches_CreateIssue_witness:
  \<open>Send (demo_Client [] []) demo_libs (Some (demo_Notifier demo_opts ''token''))
      ''{"summary":"Bug","description":{"type":"doc"}}'' demo_state =
    (Returns
       (Some \<lparr>Message_ID = ''id-x'', Message_Ok = True,
              Message_Payload = \<lparr>Payload_Summary = ''Bug'',
                 Payload_Description = Some [(''type'', GString ''doc'')]\<rparr>,
              Message_ProviderResponse = ''created''\<rparr>,
        None),
     \<lparr>world = 2,
      trace = [EvCreateIssue
        \<lparr>CreateIssue_Fields =
           \<lparr>Fields_Project_Key = ''OPS'', Fields_IssueType_Name = ''Bug'',
            Fields_Summary = ''Bug'',
            Fields_Description = Some [(''type'', GString ''doc'')]\<rparr>,
         CreateIssue_CloudID = ''site1'', CreateIssue_BearerToken = ''token''\<rparr>
        (Inr ''created'')],
      stdout = []\<rparr>)\<close>
  using Send_valid_reaches_CreateIssue [of demo_libs
      \<open>''{"summary":"Bug","description":{"type":"doc"}}''\<close>
      "\<lparr>Payload_Summary = ''Bug'', Payload_Description = Some [(''type'', GString ''doc'')]\<rparr>"
      "demo_Notifier demo_opts ''token''"
      "\<lparr>Config_Secret = Some \<lparr>Secret_Token = ''token''\<rparr>, Config_Opts = demo_opts\<rparr>"
      "\<lparr>Opts_Secret = None, Opts_ProjectKey = ''OPS'', Opts_IssueType = ''Bug'',
        Opts_CloudID = ''site1''\<rparr>"
      "\<lparr>Secret_Token = ''token''\<rparr>"
      "build_request
         \<lparr>Opts_Secret = None, Opts_ProjectKey = ''OPS'', Opts_IssueType = ''Bug'',
           Opts_CloudID = ''site1''\<rparr>
         \<lparr>Payload_Summary = ''Bug'', Payload_Description = Some [(''type'', GString ''doc'')]\<rparr>
         ''token''"
      "demo_Client [] []" demo_state]
  by (simp add: demo_libs_def demo_Unmarshal_def demo_Notifier_def demo_opts_def
      demo_Client_def demo_state_def new_Payload_def new_Opts_def build_request_def
      mapstructure_Decode_Opts_def find_key_def)

text \<open>
  Without the condition on the decoder the claim fails: a configuration with a project
  key, an issue type and a token, whose \<open>cloud_id\<close> is a number, is rejected by
  \<open>Opts.Extract\<close>, and the client is not called.
\<close>

theorem Send_mistyped_cloud_id_rejected:
  \<open>Send (demo_Client [] []) demo_libs
      (Some (demo_Notifier
         [(''project_key'', GString ''OPS''), (''issue_type'', GString ''Bug''),
          (''cloud_id'', GNumber 5)] ''token''))
      ''{"summary":"Bug","description":{"type":"doc"}}'' demo_state
    = (Returns (None, Some (errFailedOptsValidation ''failed to decode configuration'')),
       demo_state)\<close>
  by (simp add: Send_defs demo_defs)

text \<open>
  C2. When the extracted payload has an empty summary, and likewise when the configuration
  lacks the project key, the issue type, the secret or its token, \<open>Send\<close> returns a nil
  message and an error built by one of the two validation helpers, and the state at the
  end is the state at the start: the trace has not grown, no client operation was called.
\<close>

theorem Send_invalid_no_remote_call:
  assumes "(json_Unmarshal lb body new_Payload = (None, payload) \<and> Payload_Summary payload = [])
    \<or> (notifier = Some n \<and> Notifier_Config n = Some cfg
        \<and> mapstructure_Decode lb (Config_Opts cfg) new_Opts = (None, opts)
        \<and> (Opts_ProjectKey opts = [] \<or> Opts_IssueType opts = []
            \<or> (case Config_Secret cfg of None \<Rightarrow> True | Some s \<Rightarrow> Secret_Token s = [])))"
  shows "\<exists>err. Send cl lb notifier body st = (Returns (None, Some err), st)
    \<and> isValidationError err"
  using assms
  by (auto simp: Send_defs split: prod.splits sum.splits option.splits)

theorem Send_invalid_no_remote_call_witness:
  \<open>Send (demo_Client [] []) demo_libs (Some (demo_Notifier demo_opts ''token''))
      ''{"description":{"type":"doc"}}'' demo_state =
     (Returns (None, Some (errFailedBodyValidation
        ''generated payload does not contaion mandatory param summary'')), demo_state)
   \<and> Send (demo_Client [] []) demo_libs
      (Some (demo_Notifier [(''issue_type'', GString ''Bug'')] ''token''))
      ''{"summary":"Bug","description":{"type":"doc"}}'' demo_state =
     (Returns (None, Some (errFailedOptsValidation ''issue_type or project_key is emtpy'')),
      demo_state)
   \<and> trace demo_state = []\<close>
  using Send_invalid_no_remote_call [of demo_libs \<open>''{"description":{"type":"doc"}}''\<close>
      "\<lparr>Payload_Summary = [], Payload_Description = Some [(''type'', GString ''doc'')]\<rparr>"
      "Some (demo_Notifier demo_opts ''token'')" undefined undefined undefined
      "demo_Client [] []" demo_state]
    Send_invalid_no_remote_call [of demo_libs
      \<open>''{"summary":"Bug","description":{"type":"doc"}}''\<close> undefined
      "Some (demo_Notifier [(''issue_type'', GString ''Bug'')] ''token'')"
      "demo_Notifier [(''issue_type'', GString ''Bug'')] ''token''"
      "\<lparr>Config_Secret = Some \<lparr>Secret_Token = ''token''\<rparr>,
        Config_Opts = [(''issue_type'', GString ''Bug'')]\<rparr>"
      "\<lparr>Opts_Secret = None, Opts_ProjectKey = [], Opts_IssueType = ''Bug'',
        Opts_CloudID = []\<rparr>"
      "demo_Client [] []" demo_state]
  by (simp add: Send_defs demo_libs_def demo_Unmarshal_def demo_Notifier_def demo_opts_def
      demo_Client_def demo_state_def new_Payload_def new_Opts_def
      mapstructure_Decode_Opts_def find_key_def)

text \<open>The specification's scenario: a well-formed document, valid options, a good token.\<close>

lemma demo_Send_created:
  \<open>Send (demo_Client [] []) demo_libs (Some (demo_Notifier demo_opts ''token''))
      ''{"summary":"Bug","description":{"type":"doc"}}'' demo_state =
    (Returns
       (Some \<lparr>Message_ID = ''id-x'', Message_Ok = True,
              Message_Payload = \<lparr>Payload_Summary = ''Bug'',
                 Payload_Description = Some [(''type'', GString ''doc'')]\<rparr>,
              Message_ProviderResponse = ''created''\<rparr>,
        None),
     \<lparr>world = 2,
      trace = [EvCreateIssue
        \<lparr>CreateIssue_Fields =
           \<lparr>Fields_Project_Key = ''OPS'', Fields_IssueType_Name = ''Bug'',
            Fields_Summary = ''Bug'',
            Fields_Description = Some [(''type'', GString ''doc'')]\<rparr>,
         CreateIssue_CloudID = ''site1'', CreateIssue_BearerToken = ''token''\<rparr>
        (Inr ''created'')],
      stdout = []\<rparr>)\<close>
  by (simp add: Send_defs demo_defs)

text \<open>
  C4. \<open>Send\<close> succeeds, that is returns a nil error, exactly on the inputs that pass
  the local checks and for which the create-issue call returns a response; what it returns
  then is the message whose identifier is the one drawn from \<open>ksuid.New\<close> in this call,
  after the create-issue call, whose \<open>Ok\<close> is true, whose payload is the one decoded
  from the input bytes and whose provider response is the value the create-issue call
  returned. The identifier is new and unique as far as the generator is: for any account
  \<open>issued\<close> of the identifiers drawn so far that the generator respects (a draw is not
  among them and is added to them, and the client removes none), the message's identifier
  is not among those issued before the call and is among those issued after it.
\<close>

theorem Send_success_message:
  "(Send cl lb notifier body st = (Returns (m, None), st')
     \<longleftrightarrow> (\<exists>payload n cfg opts secret response w.
          json_Unmarshal lb body new_Payload = (None, payload)
        \<and> Payload_Summary payload \<noteq> [] \<and> Payload_Description payload \<noteq> None
        \<and> notifier = Some n \<and> Notifier_Config n = Some cfg
        \<and> mapstructure_Decode lb (Config_Opts cfg) new_Opts = (None, opts)
        \<and> Opts_ProjectKey opts \<noteq> [] \<and> Opts_IssueType opts \<noteq> []
        \<and> Config_Secret cfg = Some secret \<and> Secret_Token secret \<noteq> []
        \<and> CreateIssue cl (build_request opts payload (Secret_Token secret)) (world st)
            = (Inr response, w)
        \<and> m = Some \<lparr>Message_ID = fst (ksuid_New lb w), Message_Ok = True,
                Message_Payload = payload, Message_ProviderResponse = response\<rparr>
        \<and> world st' = snd (ksuid_New lb w)
        \<and> trace st' = trace st @
              [EvCreateIssue (build_request opts payload (Secret_Token secret)) (Inr response)]
        \<and> stdout st' = stdout st))
   \<and> ((\<forall>w. fst (ksuid_New lb w) \<notin> issued w)
        \<and> (\<forall>w. insert (fst (ksuid_New lb w)) (issued w) \<subseteq> issued (snd (ksuid_New lb w)))
        \<and> (\<forall>req w. issued w \<subseteq> issued (snd (CreateIssue cl req w)))
      \<longrightarrow> (\<forall>msg. Send cl lb notifier body st = (Returns (Some msg, None), st')
            \<longrightarrow> Message_ID msg \<notin> issued (world st)
              \<and> Message_ID msg \<in> issued (world st')
              \<and> issued (world st) \<subseteq> issued (world st')))"
proof (intro conjI impI allI iffI)
  assume "Send cl lb notifier body st = (Returns (m, None), st')"
  then show "\<exists>payload n cfg opts secret response w.
          json_Unmarshal lb body new_Payload = (None, payload)
        \<and> Payload_Summary payload \<noteq> [] \<and> Payload_Description payload \<noteq> None
        \<and> notifier = Some n \<and> Notifier_Config n = Some cfg
        \<and> mapstructure_Decode lb (Config_Opts cfg) new_Opts = (None, opts)
        \<and> Opts_ProjectKey opts \<noteq> [] \<and> Opts_IssueType opts \<noteq> []
        \<and> Config_Secret cfg = Some secret \<and> Secret_Token secret \<noteq> []
        \<and> CreateIssue cl (build_request opts payload (Secret_Token secret)) (world st)
            = (Inr response, w)
        \<and> m = Some \<lparr>Message_ID = fst (ksuid_New lb w), Message_Ok = True,
                Message_Payload = payload, Message_ProviderResponse = response\<rparr>
        \<and> world st' = snd (ksuid_New lb w)
        \<and> trace st' = trace st @
              [EvCreateIssue (build_request opts payload (Secret_Token secret)) (Inr response)]
        \<and> stdout st' = stdout st"
    by (rule Send_nil_error)
next
  assume "\<exists>payload n cfg opts secret response w.
          json_Unmarshal lb body new_Payload = (None, payload)
        \<and> Payload_Summary payload \<noteq> [] \<and> Payload_Description payload \<noteq> None
        \<and> notifier = Some n \<and> Notifier_Config n = Some cfg
        \<and> mapstructure_Decode lb (Config_Opts cfg) new_Opts = (None, opts)
        \<and> Opts_ProjectKey opts \<noteq> [] \<and> Opts_IssueType opts \<noteq> []
        \<and> Config_Secret cfg = Some secret \<and> Secret_Token secret \<noteq> []
        \<and> CreateIssue cl (build_request opts payload (Secret_Token secret)) (world st)
            = (Inr response, w)
        \<and> m = Some \<lparr>Message_ID = fst (ksuid_New lb w), Message_Ok = True,
                Message_Payload = payload, Message_ProviderResponse = response\<rparr>
        \<and> world st' = snd (ksuid_New lb w)
        \<and> trace st' = trace st @
              [EvCreateIssue (build_request opts payload (Secret_Token secret)) (Inr response)]
        \<and> stdout st' = stdout st"
  then obtain payload n cfg opts secret response w where
    c: "json_Unmarshal lb body new_Payload = (None, payload)"
      "Payload_Summary payload \<noteq> []" "Payload_Description payload \<noteq> None"
      "Notifier_Config n = Some cfg"
      "mapstructure_Decode lb (Config_Opts cfg) new_Opts = (None, opts)"
      "Opts_ProjectKey opts \<noteq> []" "Opts_IssueType opts \<noteq> []"
      "Config_Secret cfg = Some secret" "Secret_Token secret \<noteq> []"
      "CreateIssue cl (build_request opts payload (Secret_Token secret)) (world st)
        = (Inr response, w)"
      "world st' = snd (ksuid_New lb w)"
      "trace st' = trace st @
          [EvCreateIssue (build_request opts payload (Secret_Token secret)) (Inr response)]"
      "stdout st' = stdout st"
    and n: "notifier = Some n"
    and m: "m = Some \<lparr>Message_ID = fst (ksuid_New lb w), Message_Ok = True,
                Message_Payload = payload, Message_ProviderResponse = response\<rparr>"
    by blast
  from Send_created [OF c] n m
  show "Send cl lb notifier body st = (Returns (m, None), st')"
    by simp
next
  fix msg
  assume contract: "(\<forall>w. fst (ksuid_New lb w) \<notin> issued w)
        \<and> (\<forall>w. insert (fst (ksuid_New lb w)) (issued w) \<subseteq> issued (snd (ksuid_New lb w)))
        \<and> (\<forall>req w. issued w \<subseteq> issued (snd (CreateIssue cl req w)))"
    and run: "Send cl lb notifier body st = (Returns (Some msg, None), st')"
  from Send_nil_error [OF run] obtain req response w where
    cr: "CreateIssue cl req (world st) = (Inr response, w)"
    and ident: "Message_ID msg = fst (ksuid_New lb w)"
    and w': "world st' = snd (ksuid_New lb w)"
    by auto
  from contract cr have grow: "issued (world st) \<subseteq> issued w"
    by (metis snd_conv)
  from contract have fresh: "fst (ksuid_New lb w) \<notin> issued w"
    and kept: "insert (fst (ksuid_New lb w)) (issued w) \<subseteq> issued (snd (ksuid_New lb w))"
    by blast+
  from grow fresh show "Message_ID msg \<notin> issued (world st)"
    unfolding ident by blast
  from kept show "Message_ID msg \<in> issued (world st')"
    unfolding ident w' by blast
  from grow kept show "issued (world st) \<subseteq> issued (world st')"
    unfolding w' by blast
qed

theorem Send_success_message_witness:
  \<open>(\<forall>w. fst (ksuid_New demo_libs w) \<notin> demo_issued w)
   \<and> (\<forall>w. insert (fst (ksuid_New demo_libs w)) (demo_issued w)
          \<subseteq> demo_issued (snd (ksuid_New demo_libs w)))
   \<and> (\<forall>req w. demo_issued w \<subseteq> demo_issued (snd (CreateIssue (demo_Client [] []) req w)))
   \<and> fst (Send (demo_Client [] []) demo_libs (Some (demo_Notifier demo_opts ''token''))
        ''{"summary":"Bug","description":{"type":"doc"}}'' demo_state)
      = Returns
         (Some \<lparr>Message_ID = ''id-x'', Message_Ok = True,
                Message_Payload = \<lparr>Payload_Summary = ''Bug'',
                   Payload_Description = Some [(''type'', GString ''doc'')]\<rparr>,
                Message_ProviderResponse = ''created''\<rparr>,
          None)
   \<and> ''id-x'' \<notin> demo_issued (world demo_state)
   \<and> ''id-x'' \<in> demo_issued 2\<close>
proof -
  have fresh: "\<forall>w. fst (ksuid_New demo_libs w) \<notin> demo_issued w"
    by (auto simp: demo_libs_def demo_issued_def)
  have kept: "\<forall>w. insert (fst (ksuid_New demo_libs w)) (demo_issued w)
      \<subseteq> demo_issued (snd (ksuid_New demo_libs w))"
    by (auto simp: demo_libs_def demo_issued_def lessThan_Suc)
  have client: "\<forall>req w. demo_issued w
      \<subseteq> demo_issued (snd (CreateIssue (demo_Client [] []) req w))"
    by (auto simp: demo_Client_def demo_issued_def lessThan_Suc)
  from fresh kept client have contract:
    "(\<forall>w. fst (ksuid_New demo_libs w) \<notin> demo_issued w)
     \<and> (\<forall>w. insert (fst (ksuid_New demo_libs w)) (demo_issued w)
          \<subseteq> demo_issued (snd (ksuid_New demo_libs w)))
     \<and> (\<forall>req w. demo_issued w \<subseteq> demo_issued (snd (CreateIssue (demo_Client [] []) req w)))"
    by (intro conjI)
  note unique = Send_success_message [THEN conjunct2, rule_format,
      OF contract demo_Send_created]
  from unique have "''id-x'' \<notin> demo_issued (world demo_state)" and "''id-x'' \<in> demo_issued 2"
    by simp_all
  with fresh kept client show ?thesis
    by (simp add: demo_Send_created)
qed

text \<open>
  C5. For every body and every notifier that is not nil, \<open>Send\<close> returns, and what it
  returns is either a nil message with an error, or a nil error with a message all of whose
  fields are set: the drawn identifier, \<open>Ok\<close>, the decoded payload and the client's
  response. When the input passes the local checks and the create-issue call fails, the
  error returned is the very error the client returned, and that call is the one event
  added to the trace.
\<close>

theorem Send_message_xor_error:
  "\<exists>m e st'. Send cl lb (Some n) body st = (Returns (m, e), st')
     \<and> ((m = None \<and> e \<noteq> None)
        \<or> (\<exists>req response w. CreateIssue cl req (world st) = (Inr response, w)
             \<and> e = None
             \<and> m = Some \<lparr>Message_ID = fst (ksuid_New lb w), Message_Ok = True,
                   Message_Payload = snd (json_Unmarshal lb body new_Payload),
                   Message_ProviderResponse = response\<rparr>))
     \<and> (\<forall>req err. trace st' = trace st @ [EvCreateIssue req (Inl err)]
           \<longrightarrow> m = None \<and> e = Some err)
     \<and> (\<forall>payload cfg opts secret err w.
           json_Unmarshal lb body new_Payload = (None, payload)
           \<and> Payload_Summary payload \<noteq> [] \<and> Payload_Description payload \<noteq> None
           \<and> Notifier_Config n = Some cfg
           \<and> mapstructure_Decode lb (Config_Opts cfg) new_Opts = (None, opts)
           \<and> Opts_ProjectKey opts \<noteq> [] \<and> Opts_IssueType opts \<noteq> []
           \<and> Config_Secret cfg = Some secret \<and> Secret_Token secret \<noteq> []
           \<and> CreateIssue cl (build_request opts payload (Secret_Token secret)) (world st)
               = (Inl err, w)
           \<longrightarrow> m = None \<and> e = Some err \<and> world st' = w
             \<and> trace st' = trace st @
                 [EvCreateIssue (build_request opts payload (Secret_Token secret)) (Inl err)]
             \<and> stdout st' = stdout st)"
proof -
  obtain m e st' where S: "Send cl lb (Some n) body st = (Returns (m, e), st')"
    using Send_Some_returns by blast
  have shape: "(m = None \<and> e \<noteq> None)
        \<or> (\<exists>req response w. CreateIssue cl req (world st) = (Inr response, w)
             \<and> e = None
             \<and> m = Some \<lparr>Message_ID = fst (ksuid_New lb w), Message_Ok = True,
                   Message_Payload = snd (json_Unmarshal lb body new_Payload),
                   Message_ProviderResponse = response\<rparr>)"
    using Send_cases [OF S] by (elim disjE exE conjE) auto
  have through: "\<forall>req err. trace st' = trace st @ [EvCreateIssue req (Inl err)]
           \<longrightarrow> m = None \<and> e = Some err"
    using Send_cases [OF S] by (elim disjE exE conjE) auto
  have failed: "m = None \<and> e = Some err \<and> world st' = w
             \<and> trace st' = trace st @
                 [EvCreateIssue (build_request opts payload (Secret_Token secret)) (Inl err)]
             \<and> stdout st' = stdout st"
    if "json_Unmarshal lb body new_Payload = (None, payload)
           \<and> Payload_Summary payload \<noteq> [] \<and> Payload_Description payload \<noteq> None
           \<and> Notifier_Config n = Some cfg
           \<and> mapstructure_Decode lb (Config_Opts cfg) new_Opts = (None, opts)
           \<and> Opts_ProjectKey opts \<noteq> [] \<and> Opts_IssueType opts \<noteq> []
           \<and> Config_Secret cfg = Some secret \<and> Secret_Token secret \<noteq> []
           \<and> CreateIssue cl (build_request opts payload (Secret_Token secret)) (world st)
               = (Inl err, w)"
    for payload cfg opts secret err w
  proof -
    from that have c: "json_Unmarshal lb body new_Payload = (None, payload)"
      "Payload_Summary payload \<noteq> []" "Payload_Description payload \<noteq> None"
      "Notifier_Config n = Some cfg"
      "mapstructure_Decode lb (Config_Opts cfg) new_Opts = (None, opts)"
      "Opts_ProjectKey opts \<noteq> []" "Opts_IssueType opts \<noteq> []"
      "Config_Secret cfg = Some secret" "Secret_Token secret \<noteq> []"
      "CreateIssue cl (build_request opts payload (Secret_Token secret)) (world st)
               = (Inl err, w)"
      by simp_all
    from Send_failed [OF c S] show ?thesis .
  qed
  show ?thesis
    apply (intro exI [of _ m] exI [of _ e] exI [of _ st'] conjI allI impI)
    subgoal by (rule S)
    subgoal by (rule shape)
    subgoal using through by blast
    subgoal using through by blast
    subgoal for payload cfg opts secret err w using failed [of payload cfg opts secret err w] by blast
    subgoal for payload cfg opts secret err w using failed [of payload cfg opts secret err w] by blast
    subgoal for payload cfg opts secret err w using failed [of payload cfg opts secret err w] by blast
    subgoal for payload cfg opts secret err w using failed [of payload cfg opts secret err w] by blast
    subgoal for payload cfg opts secret err w using failed [of payload cfg opts secret err w] by blast
    done
qed

theorem Send_message_xor_error_witness:
  \<open>Send (demo_Client [] []) demo_libs (Some (demo_Notifier demo_opts ''expired''))
      ''{"summary":"Bug","description":{"type":"doc"}}'' demo_state =
    (Returns (None, Some (clientError ''unauthorized'')),
     \<lparr>world = 0,
      trace = trace demo_state @ [EvCreateIssue
        \<lparr>CreateIssue_Fields =
           \<lparr>Fields_Project_Key = ''OPS'', Fields_IssueType_Name = ''Bug'',
            Fields_Summary = ''Bug'',
            Fields_Description = Some [(''type'', GString ''doc'')]\<rparr>,
         CreateIssue_CloudID = ''site1'', CreateIssue_BearerToken = ''expired''\<rparr>
        (Inl (clientError ''unauthorized''))],
      stdout = []\<rparr>)\<close>
  using Send_message_xor_error [of "demo_Client [] []" demo_libs
      "demo_Notifier demo_opts ''expired''"
      \<open>''{"summary":"Bug","description":{"type":"doc"}}''\<close> demo_state]
  by (simp add: Send_defs demo_defs)

text \<open>
  For every input the claim fails: the notifier pointer is dereferenced without a check,
  and with a nil notifier and a valid payload \<open>Send\<close> returns nothing.
\<close>

theorem Send_nil_notifier_panics:
  \<open>Send (demo_Client [] []) demo_libs None
      ''{"summary":"Bug","description":{"type":"doc"}}'' demo_state = (Panics, demo_state)\<close>
  by (simp add: Send_defs demo_libs_def demo_Unmarshal_def new_Payload_def)

text \<open>
  C9. When \<open>json.Unmarshal\<close> rejects the input bytes, \<open>Payload.Extract\<close> fails with
  the error that \<open>errFailedBodyValidation\<close> builds from the decoder's message, the same
  helper that \<open>Payload.Validate\<close> uses: the code has no error class for parse failures
  apart from its validation errors. \<open>Send\<close> returns that error, with a nil message and
  without any change of the state.
\<close>

theorem Send_unmarshal_failure:
  assumes "json_Unmarshal lb body new_Payload = (Some msg, p)"
  shows "Payload_Extract (json_Unmarshal lb) new_Payload body
      = (Some (errFailedBodyValidation msg :: 'e IError), p)
    \<and> Send (cl :: ('w, 'e, 'r) Client) lb notifier body st
      = (Returns (None, Some (errFailedBodyValidation msg)), st)
    \<and> isValidationError (errFailedBodyValidation msg :: 'e IError)"
  using assms by (simp add: Send_defs)

theorem Send_unmarshal_failure_witness:
  \<open>Send (demo_Client [] []) demo_libs (Some (demo_Notifier demo_opts ''token''))
      ''{"summary":'' demo_state
    = (Returns (None, Some (errFailedBodyValidation ''unexpected end of JSON input'')),
       demo_state)\<close>
  using Send_unmarshal_failure [of demo_libs \<open>''{"summary":''\<close>
      "''unexpected end of JSON input''" new_Payload "demo_Client [] []"
      "Some (demo_Notifier demo_opts ''token'')" demo_state]
  by (simp add: demo_libs_def demo_Unmarshal_def)

text \<open>
  The claim as stated fails: the error of a truncated document is a validation error, built
  by the helper that also builds the error of an empty summary.
\<close>

theorem unmarshal_failure_is_validation_error:
  \<open>Payload_Extract demo_Unmarshal new_Payload ''{"summary":''
      = (Some (errFailedBodyValidation ''unexpected end of JSON input'' :: string IError),
         new_Payload)
   \<and> isValidationError
        (errFailedBodyValidation ''unexpected end of JSON input'' :: string IError)
   \<and> Payload_Validate new_Payload
      = Some (errFailedBodyValidation
          ''generated payload does not contaion mandatory param summary'' :: string IError)\<close>
  by (simp add: Payload_Extract_def Payload_Validate_def demo_Unmarshal_def new_Payload_def)


section \<open>Properties of GetOptValues\<close>

lemma issueTypes_loop_map:
  "issueTypes_loop its acc =
     acc @ map (\<lambda>it. [''id'' \<mapsto> IssueTypeItem_ID it, ''name'' \<mapsto> IssueTypeItem_Name it]) its"
  by (induction its arbitrary: acc) simp_all

lemma projectKeys_loop_map:
  "projectKeys_loop ps acc =
     acc @ map (\<lambda>p. [''id'' \<mapsto> ProjectItem_Key p, ''name'' \<mapsto> ProjectItem_Name p]) ps"
  by (induction ps arbitrary: acc) simp_all

text \<open>One round of the loop over the sites, with the accumulators in the terms above.\<close>

lemma sites_loop_Cons:
  "sites_loop cl token (site # rest) sites siteOptValues st =
     (case call_GetIssueTypes cl
             \<lparr>GetIssueTypes_BearerToken = token, GetIssueTypes_CloudID = Site_ID site\<rparr> st of
        (Inl err, st1) \<Rightarrow> (Inl err, fmt_Println ''foobar1: '' err st1)
      | (Inr issueTypesResponse, st1) \<Rightarrow>
     (case call_GetProjects cl
             \<lparr>GetProjects_BearerToken = token, GetProjects_CloudID = Site_ID site\<rparr> st1 of
        (Inl err, st2) \<Rightarrow> (Inl err, fmt_Println ''foobar2: '' err st2)
      | (Inr projects, st2) \<Rightarrow>
          sites_loop cl token rest (sites @ [site_entry site])
            (record_site siteOptValues (site, issueTypesResponse, projects)) st2))"
  by (simp add: site_entry_def site_values_def issueTypes_loop_map projectKeys_loop_map
      split: prod.splits sum.splits)

lemma call_GetIssueTypes_trace:
  assumes "call_GetIssueTypes cl req st = (res, st1)"
  shows "trace st1 = trace st @ [EvGetIssueTypes req res]" and "stdout st1 = stdout st"
  using assms by (auto simp: call_GetIssueTypes_def split: prod.splits)

lemma call_GetProjects_trace:
  assumes "call_GetProjects cl req st = (res, st1)"
  shows "trace st1 = trace st @ [EvGetProjects req res]" and "stdout st1 = stdout st"
  using assms by (auto simp: call_GetProjects_def split: prod.splits)

lemma call_GetAccessibleResources_trace:
  assumes "call_GetAccessibleResources cl req st = (res, st1)"
  shows "trace st1 = trace st @ [EvGetAccessibleResources req res]" and "stdout st1 = stdout st"
  using assms by (auto simp: call_GetAccessibleResources_def split: prod.splits)

text \<open>
  A loop that ends without an error has received two responses for every site, in the
  order of the list, and has recorded every site.
\<close>

lemma sites_loop_Inr:
  assumes "sites_loop cl token ss sites sov st = (Inr (sites', sov'), st')"
  shows "\<exists>rs. map fst rs = ss
    \<and> trace st' = trace st @ concat (map (site_events token) rs)
    \<and> stdout st' = stdout st
    \<and> sites' = sites @ map site_entry ss
    \<and> sov' = foldl record_site sov rs"
  using assms
proof (induction ss arbitrary: sites sov st)
  case Nil
  then show ?case by simp
next
  case (Cons s ss)
  from Cons.prems obtain its st1 prj st2 where
    a: "call_GetIssueTypes cl
          \<lparr>GetIssueTypes_BearerToken = token, GetIssueTypes_CloudID = Site_ID s\<rparr> st
        = (Inr its, st1)"
    and b: "call_GetProjects cl
          \<lparr>GetProjects_BearerToken = token, GetProjects_CloudID = Site_ID s\<rparr> st1
        = (Inr prj, st2)"
    and c: "sites_loop cl token ss (sites @ [site_entry s])
          (record_site sov (s, its, prj)) st2 = (Inr (sites', sov'), st')"
    by (auto simp: sites_loop_Cons simp del: sites_loop.simps split: prod.splits sum.splits)
  note t1 = call_GetIssueTypes_trace [OF a] and t2 = call_GetProjects_trace [OF b]
  from Cons.IH [OF c] obtain rs where
    rs: "map fst rs = ss"
      "trace st' = trace st2 @ concat (map (site_events token) rs)"
      "stdout st' = stdout st2"
      "sites' = (sites @ [site_entry s]) @ map site_entry ss"
      "sov' = foldl record_site (record_site sov (s, its, prj)) rs"
    by blast
  show ?case
    by (rule exI [of _ "(s, its, prj) # rs"]) (simp add: rs t1 t2)
qed

text \<open>
  Whatever the loop returns, the events it adds hold no failed lookup when it ends without
  an error, and exactly one, with the error returned, when it ends with one.
\<close>

lemma sites_loop_trace:
  assumes "sites_loop cl token ss sites sov st = (res, st')"
  shows "\<exists>evs. trace st' = trace st @ evs
    \<and> List.map_filter lookup_failure evs = (case res of Inl err \<Rightarrow> [err] | Inr r \<Rightarrow> [])"
  using assms
proof (induction ss arbitrary: sites sov st)
  case Nil
  then show ?case by (auto simp: List.map_filter_def)
next
  case (Cons s ss)
  obtain r1 st1 where a: "call_GetIssueTypes cl
      \<lparr>GetIssueTypes_BearerToken = token, GetIssueTypes_CloudID = Site_ID s\<rparr> st = (r1, st1)"
    by (cases "call_GetIssueTypes cl
      \<lparr>GetIssueTypes_BearerToken = token, GetIssueTypes_CloudID = Site_ID s\<rparr> st")
  note t1 = call_GetIssueTypes_trace(1) [OF a]
  show ?case
  proof (cases r1)
    case (Inl err)
    with Cons.prems a t1 show ?thesis
      by (auto simp: sites_loop_Cons fmt_Println_def List.map_filter_def
          simp del: sites_loop.simps)
  next
    case its: (Inr its)
    obtain r2 st2 where b: "call_GetProjects cl
        \<lparr>GetProjects_BearerToken = token, GetProjects_CloudID = Site_ID s\<rparr> st1 = (r2, st2)"
      by (cases "call_GetProjects cl
        \<lparr>GetProjects_BearerToken = token, GetProjects_CloudID = Site_ID s\<rparr> st1")
    note t2 = call_GetProjects_trace(1) [OF b]
    show ?thesis
    proof (cases r2)
      case (Inl err)
      with Cons.prems a b t1 t2 its show ?thesis
        by (auto simp: sites_loop_Cons fmt_Println_def List.map_filter_def
            simp del: sites_loop.simps)
    next
      case (Inr prj)
      with Cons.prems a b its obtain sites2 sov2 where
        c: "sites_loop cl token ss sites2 sov2 st2 = (res, st')"
        by (auto simp: sites_loop_Cons simp del: sites_loop.simps)
      from Cons.IH [OF c] obtain evs where
        "trace st' = trace st2 @ evs"
        "List.map_filter lookup_failure evs = (case res of Inl err \<Rightarrow> [err] | Inr r \<Rightarrow> [])"
        by blast
      with t1 t2 its Inr show ?thesis
        by (auto simp: List.map_filter_def)
    qed
  qed
qed

lemma lookup_failure_mem:
  assumes "ev \<in> set evs" and "lookup_failure ev = Some err"
  shows "err \<in> set (List.map_filter lookup_failure evs)"
  using assms by (force simp: List.map_filter_def)

lemma length_site_events:
  "length (concat (map (site_events token) rs)) = 2 * length rs"
  by (induction rs) auto

text \<open>The map built by the assignments \<open>siteOptValues[site.ID] = ...\<close>, in order.\<close>

lemma record_site_other:
  assumes "k \<notin> Site_ID ` fst ` set rs"
  shows "foldl record_site m rs k = m k"
  using assms by (induction rs arbitrary: m) auto

lemma record_site_last:
  assumes "rs = pre @ (s, its, prj) # post" and "Site_ID s \<notin> Site_ID ` fst ` set post"
  shows "foldl record_site m rs (Site_ID s) = Some (site_values its prj)"
  using assms by (simp add: record_site_other)

lemma record_site_dom:
  "dom (foldl record_site m rs) = dom m \<union> Site_ID ` fst ` set rs"
  by (induction rs arbitrary: m) auto

text \<open>A successful discovery, in full.\<close>

lemma GetOptValues_success:
  assumes "GetOptValues cl (Some secret) st = (Returns (Some res, e), st')"
  shows "\<exists>rs. trace st' = trace st @
        EvGetAccessibleResources
          \<lparr>AccessibleResources_BearerToken = Secret_Token secret\<rparr> (Inr (map fst rs))
        # concat (map (site_events (Secret_Token secret)) rs)
    \<and> stdout st' = stdout st
    \<and> e = None
    \<and> res = [''cloud_id'' \<mapsto> VSites (map site_entry (map fst rs)),
             ''_rel'' \<mapsto> VMap [''cloud_id'' \<mapsto>
                VSiteOptValues (foldl record_site Map.empty rs)]]"
proof -
  let ?req = "\<lparr>AccessibleResources_BearerToken = Secret_Token secret\<rparr>"
  obtain r0 st1 where a: "call_GetAccessibleResources cl ?req st = (r0, st1)"
    by (cases "call_GetAccessibleResources cl ?req st")
  note t1 = call_GetAccessibleResources_trace [OF a]
  from assms a obtain ss sites sov where
    r0: "r0 = Inr ss"
    and l: "sites_loop cl (Secret_Token secret) ss [] Map.empty st1 = (Inr (sites, sov), st')"
    and res: "res = [''cloud_id'' \<mapsto> VSites sites,
                     ''_rel'' \<mapsto> VMap [''cloud_id'' \<mapsto> VSiteOptValues sov]]"
    and e: "e = None"
    by (auto simp: GetOptValues_def split: sum.splits prod.splits)
  from sites_loop_Inr [OF l] obtain rs where
    "map fst rs = ss"
    "trace st' = trace st1 @ concat (map (site_events (Secret_Token secret)) rs)"
    "stdout st' = stdout st1"
    "sites = [] @ map site_entry ss"
    "sov = foldl record_site Map.empty rs"
    by blast
  with t1 r0 res e show ?thesis
    by (intro exI [of _ rs]) simp
qed

text \<open>Any discovery: the first event is the sites call, and a failed lookup ends it.\<close>

lemma GetOptValues_trace:
  assumes "GetOptValues cl (Some secret) st = (out, st')"
  shows "\<exists>r0 evs. trace st' = trace st @
        EvGetAccessibleResources
          \<lparr>AccessibleResources_BearerToken = Secret_Token secret\<rparr> r0 # evs
    \<and> (case List.map_filter lookup_failure evs of
          [] \<Rightarrow> True
        | err # errs \<Rightarrow> errs = [] \<and> out = Returns (None, Some err))"
proof -
  let ?req = "\<lparr>AccessibleResources_BearerToken = Secret_Token secret\<rparr>"
  obtain r0 st1 where a: "call_GetAccessibleResources cl ?req st = (r0, st1)"
    by (cases "call_GetAccessibleResources cl ?req st")
  note t1 = call_GetAccessibleResources_trace(1) [OF a]
  show ?thesis
  proof (cases r0)
    case (Inl err)
    with assms a have "trace st' = trace st1"
      by (auto simp: GetOptValues_def fmt_Println_def)
    with t1 show ?thesis
      by (intro exI [of _ r0] exI [of _ "[]"]) (simp add: List.map_filter_def)
  next
    case (Inr ss)
    obtain res st2 where
      l: "sites_loop cl (Secret_Token secret) ss [] Map.empty st1 = (res, st2)"
      by (cases "sites_loop cl (Secret_Token secret) ss [] Map.empty st1")
    from sites_loop_trace [OF l] obtain evs where
      evs: "trace st2 = trace st1 @ evs"
        "List.map_filter lookup_failure evs = (case res of Inl err \<Rightarrow> [err] | Inr r \<Rightarrow> [])"
      by blast
    from assms a Inr l have "st' = st2"
      and "\<And>err. res = Inl err \<Longrightarrow> out = Returns (None, Some err)"
      by (auto simp: GetOptValues_def split: sum.splits prod.splits)
    with evs t1 show ?thesis
      by (intro exI [of _ r0] exI [of _ evs]) (auto split: sum.splits)
  qed
qed

text \<open>The discovery, when the client answers every lookup.\<close>

lemma client_lookups_fst:
  assumes "client_lookups cl token ss w = (Some rs, w')"
  shows "map fst rs = ss"
  using assms
  by (induction ss arbitrary: w rs)
    (auto split: prod.splits sum.splits option.splits)

text \<open>The loop, when the client answers every lookup.\<close>

lemma sites_loop_lookups:
  assumes "client_lookups cl token ss (world st) = (Some rs, w')"
  shows "\<exists>st'. sites_loop cl token ss sites sov st
        = (Inr (sites @ map site_entry ss, foldl record_site sov rs), st')
    \<and> world st' = w'
    \<and> trace st' = trace st @ concat (map (site_events token) rs)
    \<and> stdout st' = stdout st"
  using assms
proof (induction ss arbitrary: sites sov st rs)
  case Nil
  then show ?case by simp
next
  case (Cons s ss)
  from Cons.prems obtain its w1 prj w2 rs' where
    a: "GetIssueTypes cl
          \<lparr>GetIssueTypes_BearerToken = token, GetIssueTypes_CloudID = Site_ID s\<rparr> (world st)
        = (Inr its, w1)"
    and b: "GetProjects cl
          \<lparr>GetProjects_BearerToken = token, GetProjects_CloudID = Site_ID s\<rparr> w1
        = (Inr prj, w2)"
    and c: "client_lookups cl token ss w2 = (Some rs', w')"
    and rs: "rs = (s, its, prj) # rs'"
    by (auto split: prod.splits sum.splits option.splits)
  let ?st1 = "st\<lparr>world := w1, trace := trace st @ [EvGetIssueTypes
      \<lparr>GetIssueTypes_BearerToken = token, GetIssueTypes_CloudID = Site_ID s\<rparr> (Inr its)]\<rparr>"
  let ?st2 = "?st1\<lparr>world := w2, trace := trace ?st1 @ [EvGetProjects
      \<lparr>GetProjects_BearerToken = token, GetProjects_CloudID = Site_ID s\<rparr> (Inr prj)]\<rparr>"
  from a have a': "call_GetIssueTypes cl
      \<lparr>GetIssueTypes_BearerToken = token, GetIssueTypes_CloudID = Site_ID s\<rparr> st
      = (Inr its, ?st1)"
    by (simp add: call_GetIssueTypes_def)
  from b have b': "call_GetProjects cl
      \<lparr>GetProjects_BearerToken = token, GetProjects_CloudID = Site_ID s\<rparr> ?st1
      = (Inr prj, ?st2)"
    by (simp add: call_GetProjects_def)
  from c have c': "client_lookups cl token ss (world ?st2) = (Some rs', w')"
    by simp
  from Cons.IH [OF c', of "sites @ [site_entry s]" "record_site sov (s, its, prj)"]
  obtain st' where
    l: "sites_loop cl token ss (sites @ [site_entry s]) (record_site sov (s, its, prj)) ?st2
        = (Inr ((sites @ [site_entry s]) @ map site_entry ss,
                foldl record_site (record_site sov (s, its, prj)) rs'), st')"
    and f: "world st' = w'"
      "trace st' = trace ?st2 @ concat (map (site_events token) rs')"
      "stdout st' = stdout ?st2"
    by blast
  have "sites_loop cl token (s # ss) sites sov st
        = (Inr (sites @ map site_entry (s # ss), foldl record_site sov rs), st')"
    using l by (simp add: sites_loop_Cons a' b' rs del: sites_loop.simps)
  with f rs show ?case
    by (intro exI [of _ st']) simp
qed

lemma GetOptValues_lookups:
  assumes "GetAccessibleResources cl
      \<lparr>AccessibleResources_BearerToken = Secret_Token secret\<rparr> (world st) = (Inr sites, w1)"
    and "client_lookups cl (Secret_Token secret) sites w1 = (Some rs, w2)"
  shows "\<exists>st'. GetOptValues cl (Some secret) st =
        (Returns
           (Some [''cloud_id'' \<mapsto> VSites (map site_entry sites),
                  ''_rel'' \<mapsto> VMap [''cloud_id'' \<mapsto>
                     VSiteOptValues (foldl record_site Map.empty rs)]],
            None), st')
    \<and> world st' = w2
    \<and> trace st' = trace st @
        EvGetAccessibleResources
          \<lparr>AccessibleResources_BearerToken = Secret_Token secret\<rparr> (Inr sites)
        # concat (map (site_events (Secret_Token secret)) rs)
    \<and> stdout st' = stdout st"
proof -
  let ?req = "\<lparr>AccessibleResources_BearerToken = Secret_Token secret\<rparr>"
  let ?st1 = "st\<lparr>world := w1, trace := trace st @ [EvGetAccessibleResources ?req (Inr sites)]\<rparr>"
  from assms(1) have a: "call_GetAccessibleResources cl ?req st = (Inr sites, ?st1)"
    by (simp add: call_GetAccessibleResources_def)
  from assms(2) have "client_lookups cl (Secret_Token secret) sites (world ?st1) = (Some rs, w2)"
    by simp
  from sites_loop_lookups [OF this, of "[]" Map.empty] obtain st' where
    l: "sites_loop cl (Secret_Token secret) sites [] Map.empty ?st1
        = (Inr ([] @ map site_entry sites, foldl record_site Map.empty rs), st')"
    and f: "world st' = w2"
      "trace st' = trace ?st1 @ concat (map (site_events (Secret_Token secret)) rs)"
      "stdout st' = stdout ?st1"
    by blast
  have "GetOptValues cl (Some secret) st =
        (Returns
           (Some [''cloud_id'' \<mapsto> VSites (map site_entry sites),
                  ''_rel'' \<mapsto> VMap [''cloud_id'' \<mapsto>
                     VSiteOptValues (foldl record_site Map.empty rs)]],
            None), st')"
    using l by (simp add: GetOptValues_def a)
  with f show ?thesis
    by (intro exI [of _ st']) simp
qed

lemma GetOptValues_entries_of_success:
  assumes "GetOptValues cl (Some secret) st = (Returns (Some res, e), st')"
  shows "\<exists>rs sov. trace st' = trace st @
        EvGetAccessibleResources
          \<lparr>AccessibleResources_BearerToken = Secret_Token secret\<rparr> (Inr (map fst rs))
        # concat (map (site_events (Secret_Token secret)) rs)
    \<and> res ''_rel'' = Some (VMap [''cloud_id'' \<mapsto> VSiteOptValues sov])
    \<and> dom sov = Site_ID ` fst ` set rs
    \<and> (\<forall>pre s its prj post.
          rs = pre @ (s, its, prj) # post \<and> Site_ID s \<notin> Site_ID ` fst ` set post \<longrightarrow>
          sov (Site_ID s) = Some
            [''project_key'' \<mapsto>
               map (\<lambda>p. [''id'' \<mapsto> ProjectItem_Key p, ''name'' \<mapsto> ProjectItem_Name p])
                 (Projects_Values prj),
             ''issue_type'' \<mapsto>
               map (\<lambda>it. [''id'' \<mapsto> IssueTypeItem_ID it, ''name'' \<mapsto> IssueTypeItem_Name it])
                 its])"
proof -
  from GetOptValues_success [OF assms] obtain rs where
    t: "trace st' = trace st @
        EvGetAccessibleResources
          \<lparr>AccessibleResources_BearerToken = Secret_Token secret\<rparr> (Inr (map fst rs))
        # concat (map (site_events (Secret_Token secret)) rs)"
    and res: "res = [''cloud_id'' \<mapsto> VSites (map site_entry (map fst rs)),
             ''_rel'' \<mapsto> VMap [''cloud_id'' \<mapsto>
                VSiteOptValues (foldl record_site Map.empty rs)]]"
    by blast
  let ?sov = "foldl record_site Map.empty rs"
  have 1: "res ''_rel'' = Some (VMap [''cloud_id'' \<mapsto> VSiteOptValues ?sov])"
    by (simp add: res)
  have 2: "dom ?sov = Site_ID ` fst ` set rs"
    by (simp add: record_site_dom)
  have 4: "?sov (Site_ID s) = Some
        [''project_key'' \<mapsto>
           map (\<lambda>p. [''id'' \<mapsto> ProjectItem_Key p, ''name'' \<mapsto> ProjectItem_Name p])
             (Projects_Values prj),
         ''issue_type'' \<mapsto>
           map (\<lambda>it. [''id'' \<mapsto> IssueTypeItem_ID it, ''name'' \<mapsto> IssueTypeItem_Name it])
             its]"
    if "rs = pre @ (s, its, prj) # post" "Site_ID s \<notin> Site_ID ` fst ` set post"
    for pre s its prj post
    using record_site_last [OF that, of Map.empty] unfolding site_values_def .
  show ?thesis
    apply (intro exI [of _ rs] exI [of _ ?sov] conjI allI impI)
    subgoal by (rule t)
    subgoal by (rule 1)
    subgoal by (rule 2)
    subgoal for pre s its prj post by (elim conjE) (rule 4)
    done
qed

text \<open>Two runs of the discovery on the concrete client: two sites, and the second failing.\<close>

lemma demo_lookups:
  "GetAccessibleResources (demo_Client demo_sites [])
      \<lparr>AccessibleResources_BearerToken = Secret_Token \<lparr>Secret_Token = ''token''\<rparr>\<rparr>
      (world demo_state) = (Inr demo_sites, 0)
   \<and> client_lookups (demo_Client demo_sites []) (Secret_Token \<lparr>Secret_Token = ''token''\<rparr>)
      demo_sites 0 = (Some demo_responses, 0)"
  by (simp add: demo_Client_def demo_sites_def demo_state_def demo_responses_def)

lemma demo_GetOptValues_fail:
  "GetOptValues (demo_Client demo_sites ''site2'') (Some \<lparr>Secret_Token = ''token''\<rparr>) demo_state =
     (Returns (None, Some (clientError ''unavailable'')),
      \<lparr>world = 0,
       trace = trace demo_state @
         [EvGetAccessibleResources \<lparr>AccessibleResources_BearerToken = ''token''\<rparr> (Inr demo_sites),
          EvGetIssueTypes
            \<lparr>GetIssueTypes_BearerToken = ''token'', GetIssueTypes_CloudID = ''site1''\<rparr>
            (Inr [\<lparr>IssueTypeItem_ID = ''10001'', IssueTypeItem_Name = ''Bug''\<rparr>]),
          EvGetProjects
            \<lparr>GetProjects_BearerToken = ''token'', GetProjects_CloudID = ''site1''\<rparr>
            (Inr \<lparr>Projects_Values = [\<lparr>ProjectItem_ID = ''10000'', ProjectItem_Key = ''OPS'',
                  ProjectItem_Name = ''Operations''\<rparr>]\<rparr>),
          EvGetIssueTypes
            \<lparr>GetIssueTypes_BearerToken = ''token'', GetIssueTypes_CloudID = ''site2''\<rparr>
            (Inr [\<lparr>IssueTypeItem_ID = ''10001'', IssueTypeItem_Name = ''Bug''\<rparr>]),
          EvGetProjects
            \<lparr>GetProjects_BearerToken = ''token'', GetProjects_CloudID = ''site2''\<rparr>
            (Inl (clientError ''unavailable''))],
       stdout = [(''foobar2: '', clientError ''unavailable'')]\<rparr>)"
  by (simp add: GetOptValues_def call_GetAccessibleResources_def call_GetIssueTypes_def
      call_GetProjects_def fmt_Println_def demo_Client_def demo_sites_def demo_state_def)

text \<open>
  C3. Whenever one of the per-site lookups of a discovery fails, for the issue types or
  for the projects and at whatever site, \<open>GetOptValues\<close> returns that error and a nil
  result: nothing of what was collected for the sites before is returned.
\<close>

theorem GetOptValues_fail_fast:
  assumes "GetOptValues cl (Some secret) st = (out, st')"
    and "trace st' = trace st @ evs"
    and "EvGetIssueTypes req1 (Inl err) \<in> set evs \<or> EvGetProjects req2 (Inl err) \<in> set evs"
  shows "out = Returns (None, Some err)"
proof -
  from GetOptValues_trace [OF assms(1)] obtain r0 evs' where
    t: "trace st' = trace st @
        EvGetAccessibleResources
          \<lparr>AccessibleResources_BearerToken = Secret_Token secret\<rparr> r0 # evs'"
    and f: "case List.map_filter lookup_failure evs' of
          [] \<Rightarrow> True
        | err # errs \<Rightarrow> errs = [] \<and> out = Returns (None, Some err)"
    by blast
  from t assms(2) have evs: "evs = EvGetAccessibleResources
      \<lparr>AccessibleResources_BearerToken = Secret_Token secret\<rparr> r0 # evs'"
    by simp
  from assms(3) evs obtain ev where "ev \<in> set evs'" "lookup_failure ev = Some err"
    by auto
  then have "err \<in> set (List.map_filter lookup_failure evs')"
    by (rule lookup_failure_mem)
  with f show ?thesis
    by (cases "List.map_filter lookup_failure evs'") auto
qed

theorem GetOptValues_fail_fast_witness:
  "fst (GetOptValues (demo_Client demo_sites ''site2'') (Some \<lparr>Secret_Token = ''token''\<rparr>)
      demo_state)
   = Returns (None, Some (clientError ''unavailable''))"
proof -
  let ?out = "GetOptValues (demo_Client demo_sites ''site2'') (Some \<lparr>Secret_Token = ''token''\<rparr>)
      demo_state"
  let ?req = "\<lparr>GetProjects_BearerToken = ''token'', GetProjects_CloudID = ''site2''\<rparr>"
  have run: "?out = (fst ?out, snd ?out)"
    by simp
  have start: "trace demo_state = []"
    by (simp add: demo_state_def)
  have grown: "trace (snd ?out) = trace demo_state @ drop 0 (trace (snd ?out))"
    by (simp add: start)
  have failed: "EvGetIssueTypes undefined (Inl (clientError ''unavailable''))
        \<in> set (drop 0 (trace (snd ?out)))
      \<or> EvGetProjects ?req (Inl (clientError ''unavailable''))
        \<in> set (drop 0 (trace (snd ?out)))"
    by (simp add: demo_GetOptValues_fail start)
  from GetOptValues_fail_fast [OF run grown failed] show ?thesis .
qed

text \<open>
  C6. When the client reports no accessible site, \<open>GetOptValues\<close> returns the result
  \<open>{cloud_id: [], _rel: {cloud_id: {}}}\<close> and a nil error, and the one event it adds to
  the trace is the call that listed the sites.
\<close>

theorem GetOptValues_no_sites:
  assumes "GetAccessibleResources cl
      \<lparr>AccessibleResources_BearerToken = Secret_Token secret\<rparr> (world st) = (Inr [], w)"
  shows "GetOptValues cl (Some secret) st =
     (Returns
        (Some [''cloud_id'' \<mapsto> VSites [],
               ''_rel'' \<mapsto> VMap [''cloud_id'' \<mapsto> VSiteOptValues Map.empty]],
         None),
      st\<lparr>world := w,
         trace := trace st @
           [EvGetAccessibleResources
              \<lparr>AccessibleResources_BearerToken = Secret_Token secret\<rparr> (Inr [])]\<rparr>)"
  using assms by (simp add: GetOptValues_def call_GetAccessibleResources_def)

theorem GetOptValues_no_sites_witness:
  "GetOptValues (demo_Client [] []) (Some \<lparr>Secret_Token = ''token''\<rparr>) demo_state =
     (Returns
        (Some [''cloud_id'' \<mapsto> VSites [],
               ''_rel'' \<mapsto> VMap [''cloud_id'' \<mapsto> VSiteOptValues Map.empty]],
         None),
      \<lparr>world = 0,
       trace = [EvGetAccessibleResources \<lparr>AccessibleResources_BearerToken = ''token''\<rparr> (Inr [])],
       stdout = []\<rparr>)"
  using GetOptValues_no_sites [of "demo_Client [] []" "\<lparr>Secret_Token = ''token''\<rparr>"
      demo_state 0]
  by (simp add: demo_Client_def demo_state_def)

text \<open>
  C7. When the client reports the sites and answers every lookup, the discovery returns a
  result whose relational sub-mapping has an entry under the id of every site and under no
  other key. For every site whose id no later site of the list carries, the entry under its
  id holds the \<open>issue_type\<close> list of the \<open>{id, name}\<close> pairs of the site's issue-type
  response and the \<open>project_key\<close> list whose pairs have the project's key as \<open>id\<close>
  and its name as \<open>name\<close>; the internal identifier of a project occurs nowhere. Where
  sites share an id, the entry is that of the last of them. The same holds of every result
  that the discovery returns, with the responses as the trace has them.
\<close>

theorem GetOptValues_site_entries:
  "(GetAccessibleResources cl
        \<lparr>AccessibleResources_BearerToken = Secret_Token secret\<rparr> (world st) = (Inr sites, w1)
      \<and> client_lookups cl (Secret_Token secret) sites w1 = (Some rs, w2)
    \<longrightarrow> (\<exists>res sov st'. GetOptValues cl (Some secret) st = (Returns (Some res, None), st')
          \<and> res ''_rel'' = Some (VMap [''cloud_id'' \<mapsto> VSiteOptValues sov])
          \<and> dom sov = Site_ID ` set sites
          \<and> (\<forall>pre s its prj post.
                rs = pre @ (s, its, prj) # post \<and> Site_ID s \<notin> Site_ID ` fst ` set post \<longrightarrow>
                sov (Site_ID s) = Some
                  [''project_key'' \<mapsto>
                     map (\<lambda>p. [''id'' \<mapsto> ProjectItem_Key p, ''name'' \<mapsto> ProjectItem_Name p])
                       (Projects_Values prj),
                   ''issue_type'' \<mapsto>
                     map (\<lambda>it. [''id'' \<mapsto> IssueTypeItem_ID it,
                                ''name'' \<mapsto> IssueTypeItem_Name it])
                       its])))
   \<and> (\<forall>res e st'. GetOptValues cl (Some secret) st = (Returns (Some res, e), st')
        \<longrightarrow> (\<exists>rs sov. trace st' = trace st @
              EvGetAccessibleResources
                \<lparr>AccessibleResources_BearerToken = Secret_Token secret\<rparr> (Inr (map fst rs))
              # concat (map (site_events (Secret_Token secret)) rs)
            \<and> res ''_rel'' = Some (VMap [''cloud_id'' \<mapsto> VSiteOptValues sov])
            \<and> dom sov = Site_ID ` fst ` set rs
            \<and> (\<forall>pre s its prj post.
                  rs = pre @ (s, its, prj) # post \<and> Site_ID s \<notin> Site_ID ` fst ` set post \<longrightarrow>
                  sov (Site_ID s) = Some
                    [''project_key'' \<mapsto>
                       map (\<lambda>p. [''id'' \<mapsto> ProjectItem_Key p, ''name'' \<mapsto> ProjectItem_Name p])
                         (Projects_Values prj),
                     ''issue_type'' \<mapsto>
                       map (\<lambda>it. [''id'' \<mapsto> IssueTypeItem_ID it,
                                  ''name'' \<mapsto> IssueTypeItem_Name it])
                         its])))"
proof (intro conjI)
  show "GetAccessibleResources cl
        \<lparr>AccessibleResources_BearerToken = Secret_Token secret\<rparr> (world st) = (Inr sites, w1)
      \<and> client_lookups cl (Secret_Token secret) sites w1 = (Some rs, w2)
    \<longrightarrow> (\<exists>res sov st'. GetOptValues cl (Some secret) st = (Returns (Some res, None), st')
          \<and> res ''_rel'' = Some (VMap [''cloud_id'' \<mapsto> VSiteOptValues sov])
          \<and> dom sov = Site_ID ` set sites
          \<and> (\<forall>pre s its prj post.
                rs = pre @ (s, its, prj) # post \<and> Site_ID s \<notin> Site_ID ` fst ` set post \<longrightarrow>
                sov (Site_ID s) = Some
                  [''project_key'' \<mapsto>
                     map (\<lambda>p. [''id'' \<mapsto> ProjectItem_Key p, ''name'' \<mapsto> ProjectItem_Name p])
                       (Projects_Values prj),
                   ''issue_type'' \<mapsto>
                     map (\<lambda>it. [''id'' \<mapsto> IssueTypeItem_ID it,
                                ''name'' \<mapsto> IssueTypeItem_Name it])
                       its]))"
  proof
    assume env: "GetAccessibleResources cl
        \<lparr>AccessibleResources_BearerToken = Secret_Token secret\<rparr> (world st) = (Inr sites, w1)
      \<and> client_lookups cl (Secret_Token secret) sites w1 = (Some rs, w2)"
    then have fsts: "map fst rs = sites"
      by (blast dest: client_lookups_fst)
    let ?sov = "foldl record_site Map.empty rs"
    let ?res = "[''cloud_id'' \<mapsto> VSites (map site_entry sites),
                  ''_rel'' \<mapsto> VMap [''cloud_id'' \<mapsto> VSiteOptValues ?sov]]"
    from env GetOptValues_lookups [of cl secret st sites w1 rs w2] obtain st' where
      run: "GetOptValues cl (Some secret) st = (Returns (Some ?res, None), st')"
      by blast
    have 1: "?res ''_rel'' = Some (VMap [''cloud_id'' \<mapsto> VSiteOptValues ?sov])"
      by simp
    have "Site_ID ` fst ` set rs = Site_ID ` set (map fst rs)"
      by simp
    then have 2: "dom ?sov = Site_ID ` set sites"
      unfolding fsts by (simp add: record_site_dom)
    have 4: "?sov (Site_ID s) = Some
          [''project_key'' \<mapsto>
             map (\<lambda>p. [''id'' \<mapsto> ProjectItem_Key p, ''name'' \<mapsto> ProjectItem_Name p])
               (Projects_Values prj),
           ''issue_type'' \<mapsto>
             map (\<lambda>it. [''id'' \<mapsto> IssueTypeItem_ID it, ''name'' \<mapsto> IssueTypeItem_Name it])
               its]"
      if "rs = pre @ (s, its, prj) # post" "Site_ID s \<notin> Site_ID ` fst ` set post"
      for pre s its prj post
      using record_site_last [OF that, of Map.empty] unfolding site_values_def .
    show "\<exists>res sov st'. GetOptValues cl (Some secret) st = (Returns (Some res, None), st')
          \<and> res ''_rel'' = Some (VMap [''cloud_id'' \<mapsto> VSiteOptValues sov])
          \<and> dom sov = Site_ID ` set sites
          \<and> (\<forall>pre s its prj post.
                rs = pre @ (s, its, prj) # post \<and> Site_ID s \<notin> Site_ID ` fst ` set post \<longrightarrow>
                sov (Site_ID s) = Some
                  [''project_key'' \<mapsto>
                     map (\<lambda>p. [''id'' \<mapsto> ProjectItem_Key p, ''name'' \<mapsto> ProjectItem_Name p])
                       (Projects_Values prj),
                   ''issue_type'' \<mapsto>
                     map (\<lambda>it. [''id'' \<mapsto> IssueTypeItem_ID it,
                                ''name'' \<mapsto> IssueTypeItem_Name it])
                       its])"
      apply (intro exI [of _ ?res] exI [of _ ?sov] exI [of _ st'] conjI allI impI)
      subgoal by (rule run)
      subgoal by (rule 1)
      subgoal by (rule 2)
      subgoal for pre s its prj post by (elim conjE) (rule 4)
      done
  qed
next
  show "\<forall>res e st'. GetOptValues cl (Some secret) st = (Returns (Some res, e), st')
        \<longrightarrow> (\<exists>rs sov. trace st' = trace st @
              EvGetAccessibleResources
                \<lparr>AccessibleResources_BearerToken = Secret_Token secret\<rparr> (Inr (map fst rs))
              # concat (map (site_events (Secret_Token secret)) rs)
            \<and> res ''_rel'' = Some (VMap [''cloud_id'' \<mapsto> VSiteOptValues sov])
            \<and> dom sov = Site_ID ` fst ` set rs
            \<and> (\<forall>pre s its prj post.
                  rs = pre @ (s, its, prj) # post \<and> Site_ID s \<notin> Site_ID ` fst ` set post \<longrightarrow>
                  sov (Site_ID s) = Some
                    [''project_key'' \<mapsto>
                       map (\<lambda>p. [''id'' \<mapsto> ProjectItem_Key p, ''name'' \<mapsto> ProjectItem_Name p])
                         (Projects_Values prj),
                     ''issue_type'' \<mapsto>
                       map (\<lambda>it. [''id'' \<mapsto> IssueTypeItem_ID it,
                                  ''name'' \<mapsto> IssueTypeItem_Name it])
                         its]))"
    by (intro allI impI) (rule GetOptValues_entries_of_success)
qed

theorem GetOptValues_site_entries_witness:
  "\<exists>res sov st'. GetOptValues (demo_Client demo_sites []) (Some \<lparr>Secret_Token = ''token''\<rparr>)
        demo_state = (Returns (Some res, None), st')
     \<and> res ''_rel'' = Some (VMap [''cloud_id'' \<mapsto> VSiteOptValues sov])
     \<and> dom sov = {''site1'', ''site2''}
     \<and> sov ''site1'' = Some
         [''project_key'' \<mapsto> [[''id'' \<mapsto> ''OPS'', ''name'' \<mapsto> ''Operations'']],
          ''issue_type'' \<mapsto> [[''id'' \<mapsto> ''10001'', ''name'' \<mapsto> ''Bug'']]]"
proof -
  let ?s1 = "\<lparr>Site_ID = ''site1'', Site_Name = ''First''\<rparr>"
  let ?its = "[\<lparr>IssueTypeItem_ID = ''10001'', IssueTypeItem_Name = ''Bug''\<rparr>]"
  let ?prj = "\<lparr>Projects_Values = [\<lparr>ProjectItem_ID = ''10000'', ProjectItem_Key = ''OPS'',
          ProjectItem_Name = ''Operations''\<rparr>]\<rparr>"
  let ?post = "[(\<lparr>Site_ID = ''site2'', Site_Name = ''Second''\<rparr>, ?its, ?prj)]"
  from GetOptValues_site_entries [THEN conjunct1, rule_format, OF demo_lookups]
  obtain res sov st' where
    run: "GetOptValues (demo_Client demo_sites []) (Some \<lparr>Secret_Token = ''token''\<rparr>) demo_state
      = (Returns (Some res, None), st')"
    and rel: "res ''_rel'' = Some (VMap [''cloud_id'' \<mapsto> VSiteOptValues sov])"
    and d: "dom sov = Site_ID ` set demo_sites"
    and own: "\<forall>pre s its prj post.
        demo_responses = pre @ (s, its, prj) # post \<and> Site_ID s \<notin> Site_ID ` fst ` set post \<longrightarrow>
        sov (Site_ID s) = Some
          [''project_key'' \<mapsto>
             map (\<lambda>p. [''id'' \<mapsto> ProjectItem_Key p, ''name'' \<mapsto> ProjectItem_Name p])
               (Projects_Values prj),
           ''issue_type'' \<mapsto>
             map (\<lambda>it. [''id'' \<mapsto> IssueTypeItem_ID it, ''name'' \<mapsto> IssueTypeItem_Name it])
               its]"
    by (elim exE conjE)
  have "demo_responses = [] @ (?s1, ?its, ?prj) # ?post
      \<and> Site_ID ?s1 \<notin> Site_ID ` fst ` set ?post"
    by (simp add: demo_responses_def)
  with own have "sov (Site_ID ?s1) = Some
          [''project_key'' \<mapsto>
             map (\<lambda>p. [''id'' \<mapsto> ProjectItem_Key p, ''name'' \<mapsto> ProjectItem_Name p])
               (Projects_Values ?prj),
           ''issue_type'' \<mapsto>
             map (\<lambda>it. [''id'' \<mapsto> IssueTypeItem_ID it, ''name'' \<mapsto> IssueTypeItem_Name it])
               ?its]"
    by (elim allE impE) assumption+
  then have one: "sov ''site1'' = Some
         [''project_key'' \<mapsto> [[''id'' \<mapsto> ''OPS'', ''name'' \<mapsto> ''Operations'']],
          ''issue_type'' \<mapsto> [[''id'' \<mapsto> ''10001'', ''name'' \<mapsto> ''Bug'']]]"
    by simp
  from d have two: "dom sov = {''site1'', ''site2''}"
    by (simp add: demo_sites_def)
  from run rel two one show ?thesis
    by (intro exI [of _ res] exI [of _ sov] exI [of _ st'] conjI)
qed

text \<open>
  For every site the claim fails: of two sites with one id, the entry holds what the
  client answered for the second; the issue types it answered for the first are nowhere in
  the result.
\<close>

theorem twin_site_entry_overwritten:
  "fst (GetOptValues demo_changing_Client (Some \<lparr>Secret_Token = ''token''\<rparr>) demo_state)
    = Returns
       (Some [''cloud_id'' \<mapsto> VSites
                [[''id'' \<mapsto> ''site1'', ''name'' \<mapsto> ''First''],
                 [''id'' \<mapsto> ''site1'', ''name'' \<mapsto> ''Twin'']],
              ''_rel'' \<mapsto> VMap [''cloud_id'' \<mapsto> VSiteOptValues
                [''site1'' \<mapsto>
                   [''project_key'' \<mapsto> [[''id'' \<mapsto> ''OPS'', ''name'' \<mapsto> ''Operations'']],
                    ''issue_type'' \<mapsto> [[''id'' \<mapsto> ''10002'', ''name'' \<mapsto> ''Task'']]]]]],
        None)
   \<and> trace (snd (GetOptValues demo_changing_Client (Some \<lparr>Secret_Token = ''token''\<rparr>)
        demo_state))
    = [EvGetAccessibleResources \<lparr>AccessibleResources_BearerToken = ''token''\<rparr>
         (Inr demo_twin_sites),
       EvGetIssueTypes
         \<lparr>GetIssueTypes_BearerToken = ''token'', GetIssueTypes_CloudID = ''site1''\<rparr>
         (Inr [\<lparr>IssueTypeItem_ID = ''10001'', IssueTypeItem_Name = ''Bug''\<rparr>]),
       EvGetProjects
         \<lparr>GetProjects_BearerToken = ''token'', GetProjects_CloudID = ''site1''\<rparr>
         (Inr \<lparr>Projects_Values = [\<lparr>ProjectItem_ID = ''10000'', ProjectItem_Key = ''OPS'',
               ProjectItem_Name = ''Operations''\<rparr>]\<rparr>),
       EvGetIssueTypes
         \<lparr>GetIssueTypes_BearerToken = ''token'', GetIssueTypes_CloudID = ''site1''\<rparr>
         (Inr [\<lparr>IssueTypeItem_ID = ''10002'', IssueTypeItem_Name = ''Task''\<rparr>]),
       EvGetProjects
         \<lparr>GetProjects_BearerToken = ''token'', GetProjects_CloudID = ''site1''\<rparr>
         (Inr \<lparr>Projects_Values = [\<lparr>ProjectItem_ID = ''10000'', ProjectItem_Key = ''OPS'',
               ProjectItem_Name = ''Operations''\<rparr>]\<rparr>)]"
proof (rule conjI)
  show "fst (GetOptValues demo_changing_Client (Some \<lparr>Secret_Token = ''token''\<rparr>) demo_state)
    = Returns
       (Some [''cloud_id'' \<mapsto> VSites
                [[''id'' \<mapsto> ''site1'', ''name'' \<mapsto> ''First''],
                 [''id'' \<mapsto> ''site1'', ''name'' \<mapsto> ''Twin'']],
              ''_rel'' \<mapsto> VMap [''cloud_id'' \<mapsto> VSiteOptValues
                [''site1'' \<mapsto>
                   [''project_key'' \<mapsto> [[''id'' \<mapsto> ''OPS'', ''name'' \<mapsto> ''Operations'']],
                    ''issue_type'' \<mapsto> [[''id'' \<mapsto> ''10002'', ''name'' \<mapsto> ''Task'']]]]]],
        None)"
    by (simp add: GetOptValues_def call_GetAccessibleResources_def call_GetIssueTypes_def
        call_GetProjects_def demo_changing_Client_def demo_twin_sites_def demo_state_def)
  show "trace (snd (GetOptValues demo_changing_Client (Some \<lparr>Secret_Token = ''token''\<rparr>)
        demo_state))
    = [EvGetAccessibleResources \<lparr>AccessibleResources_BearerToken = ''token''\<rparr>
         (Inr demo_twin_sites),
       EvGetIssueTypes
         \<lparr>GetIssueTypes_BearerToken = ''token'', GetIssueTypes_CloudID = ''site1''\<rparr>
         (Inr [\<lparr>IssueTypeItem_ID = ''10001'', IssueTypeItem_Name = ''Bug''\<rparr>]),
       EvGetProjects
         \<lparr>GetProjects_BearerToken = ''token'', GetProjects_CloudID = ''site1''\<rparr>
         (Inr \<lparr>Projects_Values = [\<lparr>ProjectItem_ID = ''10000'', ProjectItem_Key = ''OPS'',
               ProjectItem_Name = ''Operations''\<rparr>]\<rparr>),
       EvGetIssueTypes
         \<lparr>GetIssueTypes_BearerToken = ''token'', GetIssueTypes_CloudID = ''site1''\<rparr>
         (Inr [\<lparr>IssueTypeItem_ID = ''10002'', IssueTypeItem_Name = ''Task''\<rparr>]),
       EvGetProjects
         \<lparr>GetProjects_BearerToken = ''token'', GetProjects_CloudID = ''site1''\<rparr>
         (Inr \<lparr>Projects_Values = [\<lparr>ProjectItem_ID = ''10000'', ProjectItem_Key = ''OPS'',
               ProjectItem_Name = ''Operations''\<rparr>]\<rparr>)]"
    by (simp add: GetOptValues_def call_GetAccessibleResources_def call_GetIssueTypes_def
        call_GetProjects_def demo_changing_Client_def demo_twin_sites_def demo_state_def)
qed

text \<open>
  C8. When the client reports the sites and answers every lookup, the discovery succeeds
  and adds to the trace the call that listed the sites and then, site by site in the order
  of that list, the site's issue-types call followed by its projects call, and nothing else:
  one call and two more for every site. Every successful discovery has added these events.
\<close>

theorem GetOptValues_remote_calls:
  "(GetAccessibleResources cl
        \<lparr>AccessibleResources_BearerToken = Secret_Token secret\<rparr> (world st) = (Inr sites, w1)
      \<and> client_lookups cl (Secret_Token secret) sites w1 = (Some rs, w2)
    \<longrightarrow> (\<exists>res st'. GetOptValues cl (Some secret) st = (Returns (Some res, None), st')
          \<and> world st' = w2
          \<and> trace st' = trace st @
              EvGetAccessibleResources
                \<lparr>AccessibleResources_BearerToken = Secret_Token secret\<rparr> (Inr sites)
              # concat (map (site_events (Secret_Token secret)) rs)
          \<and> map fst rs = sites
          \<and> length (trace st') = length (trace st) + (1 + 2 * length sites)))
   \<and> (\<forall>res e st'. GetOptValues cl (Some secret) st = (Returns (Some res, e), st')
        \<longrightarrow> (\<exists>rs. trace st' = trace st @
              EvGetAccessibleResources
                \<lparr>AccessibleResources_BearerToken = Secret_Token secret\<rparr> (Inr (map fst rs))
              # concat (map (site_events (Secret_Token secret)) rs)
            \<and> length (trace st') = length (trace st) + (1 + 2 * length (map fst rs))))"
proof (intro conjI allI impI)
  assume env: "GetAccessibleResources cl
        \<lparr>AccessibleResources_BearerToken = Secret_Token secret\<rparr> (world st) = (Inr sites, w1)
      \<and> client_lookups cl (Secret_Token secret) sites w1 = (Some rs, w2)"
  then have fsts: "map fst rs = sites"
    by (blast dest: client_lookups_fst)
  then have len: "length rs = length sites"
    by (metis length_map)
  from env GetOptValues_lookups [of cl secret st sites w1 rs w2] obtain st' where
    run: "GetOptValues cl (Some secret) st =
        (Returns
           (Some [''cloud_id'' \<mapsto> VSites (map site_entry sites),
                  ''_rel'' \<mapsto> VMap [''cloud_id'' \<mapsto>
                     VSiteOptValues (foldl record_site Map.empty rs)]],
            None), st')"
    and f: "world st' = w2"
      "trace st' = trace st @
        EvGetAccessibleResources
          \<lparr>AccessibleResources_BearerToken = Secret_Token secret\<rparr> (Inr sites)
        # concat (map (site_events (Secret_Token secret)) rs)"
    by blast
  from f(2) have "length (trace st') = length (trace st) + (1 + 2 * length sites)"
    by (simp add: length_site_events len)
  with run f fsts
  show "\<exists>res st'. GetOptValues cl (Some secret) st = (Returns (Some res, None), st')
          \<and> world st' = w2
          \<and> trace st' = trace st @
              EvGetAccessibleResources
                \<lparr>AccessibleResources_BearerToken = Secret_Token secret\<rparr> (Inr sites)
              # concat (map (site_events (Secret_Token secret)) rs)
          \<and> map fst rs = sites
          \<and> length (trace st') = length (trace st) + (1 + 2 * length sites)"
    by (intro exI [of _ "[''cloud_id'' \<mapsto> VSites (map site_entry sites),
                  ''_rel'' \<mapsto> VMap [''cloud_id'' \<mapsto>
                     VSiteOptValues (foldl record_site Map.empty rs)]]"] exI [of _ st'] conjI)
next
  fix res e st'
  assume "GetOptValues cl (Some secret) st = (Returns (Some res, e), st')"
  from GetOptValues_success [OF this] obtain rs where
    t: "trace st' = trace st @
        EvGetAccessibleResources
          \<lparr>AccessibleResources_BearerToken = Secret_Token secret\<rparr> (Inr (map fst rs))
        # concat (map (site_events (Secret_Token secret)) rs)"
    by blast
  then show "\<exists>rs. trace st' = trace st @
              EvGetAccessibleResources
                \<lparr>AccessibleResources_BearerToken = Secret_Token secret\<rparr> (Inr (map fst rs))
              # concat (map (site_events (Secret_Token secret)) rs)
            \<and> length (trace st') = length (trace st) + (1 + 2 * length (map fst rs))"
    by (intro exI [of _ rs]) (simp add: length_site_events)
qed

theorem GetOptValues_remote_calls_witness:
  "\<exists>res st'. GetOptValues (demo_Client demo_sites []) (Some \<lparr>Secret_Token = ''token''\<rparr>)
        demo_state = (Returns (Some res, None), st')
     \<and> trace st' =
        EvGetAccessibleResources \<lparr>AccessibleResources_BearerToken = ''token''\<rparr> (Inr demo_sites)
        # concat (map (site_events ''token'') demo_responses)
     \<and> length (trace st') = 5"
proof -
  from GetOptValues_remote_calls [THEN conjunct1, rule_format, OF demo_lookups]
  obtain res st' where
    "GetOptValues (demo_Client demo_sites []) (Some \<lparr>Secret_Token = ''token''\<rparr>) demo_state
      = (Returns (Some res, None), st')"
    and "trace st' = trace demo_state @
      EvGetAccessibleResources
        \<lparr>AccessibleResources_BearerToken = Secret_Token \<lparr>Secret_Token = ''token''\<rparr>\<rparr>
        (Inr demo_sites)
      # concat (map (site_events (Secret_Token \<lparr>Secret_Token = ''token''\<rparr>)) demo_responses)"
    and "length (trace st') = length (trace demo_state) + (1 + 2 * length demo_sites)"
    by blast
  then show ?thesis
    by (intro exI [of _ res] exI [of _ st'] conjI)
      (simp_all add: demo_state_def demo_sites_def)
qed

section \<open>Properties of Opts.Extract\<close>







end
